theory Spec2Isabelle
  imports Main "HOL-Library.Word" "HOL-Library.Sublist"
begin

section \<open>JavaScript strings\<close>

text \<open>
  A JavaScript string is a sequence of UTF-16 code units; \<open>length\<close>, \<open>trim\<close>,
  \<open>split\<close> and the regular expressions of the service (none has the \<open>u\<close> flag) all
  work on code units. \<open>js\<close> turns an ASCII literal of the source into such a string.
\<close>

type_synonym jschar = "16 word"
type_synonym jsstring = "jschar list"

definition js :: "string \<Rightarrow> jsstring" where
  "js s = map of_char s"

definition nl :: jsstring where "nl = [0x0A]"
definition sq :: jsstring where "sq = [0x27]"
definition dq :: jsstring where "dq = [0x22]"

text \<open>\<open>String.prototype.trim\<close>: the WhiteSpace and LineTerminator code units of ECMAScript.\<close>

definition isWhiteSpace :: "jschar \<Rightarrow> bool" where
  "isWhiteSpace c \<longleftrightarrow>
     c \<in> set [0x0009, 0x000A, 0x000B, 0x000C, 0x000D, 0x0020, 0x00A0, 0x1680,
              0x2000, 0x2001, 0x2002, 0x2003, 0x2004, 0x2005, 0x2006, 0x2007,
              0x2008, 0x2009, 0x200A, 0x2028, 0x2029, 0x202F, 0x205F, 0x3000, 0xFEFF]"

definition trim :: "jsstring \<Rightarrow> jsstring" where
  "trim s = rev (dropWhile isWhiteSpace (rev (dropWhile isWhiteSpace s)))"

text \<open>
  \<open>text.replace(/```lang|```/g, '')\<close>: scanning from the left, a fence followed by the
  language tag is removed as a whole (the first alternative wins), a bare fence
  otherwise, and any other code unit is kept.
\<close>

definition fence :: jsstring where
  "fence = js ''```''"

function stripFences :: "jsstring \<Rightarrow> jsstring \<Rightarrow> jsstring" where
  "stripFences lang [] = []"
| "stripFences lang (c # cs) =
     (if prefix (fence @ lang) (c # cs)
        then stripFences lang (drop (length (fence @ lang)) (c # cs))
      else if prefix fence (c # cs)
        then stripFences lang (drop (length fence) (c # cs))
      else c # stripFences lang cs)"
  by pat_completeness auto
termination
  by (relation "measure (\<lambda>(lang, s). length s)") (auto simp: fence_def js_def)

text \<open>\<open>screenName.replace(/[^a-zA-Z0-9]/g, '')\<close>\<close>

definition isAlnum :: "jschar \<Rightarrow> bool" where
  "isAlnum c \<longleftrightarrow> (0x30 \<le> c \<and> c \<le> 0x39) \<or> (0x41 \<le> c \<and> c \<le> 0x5A) \<or> (0x61 \<le> c \<and> c \<le> 0x7A)"

definition removeNonAlnum :: "jsstring \<Rightarrow> jsstring" where
  "removeNonAlnum s = filter isAlnum s"

text \<open>\<open>s.split(sep)\<close> for a one-unit separator, and \<open>lines.join(sep)\<close>.\<close>

function split :: "jschar \<Rightarrow> jsstring \<Rightarrow> jsstring list" where
  "split sep s =
     (case dropWhile (\<lambda>c. c \<noteq> sep) s of
        [] \<Rightarrow> [takeWhile (\<lambda>c. c \<noteq> sep) s]
      | _ # rest \<Rightarrow> takeWhile (\<lambda>c. c \<noteq> sep) s # split sep rest)"
  by pat_completeness auto
termination
proof (relation "measure (\<lambda>(sep, s). length s)")
  show "wf (measure (\<lambda>(sep, s). length s))" by simp
next
  fix sep :: jschar and s x21 rest
  assume "dropWhile (\<lambda>c. c \<noteq> sep) s = x21 # rest"
  then have "length (x21 # rest) \<le> length s"
    using length_dropWhile_le [of "\<lambda>c. c \<noteq> sep" s] by simp
  then show "((sep, rest), (sep, s)) \<in> measure (\<lambda>(sep, s). length s)" by simp
qed

fun join :: "jsstring \<Rightarrow> jsstring list \<Rightarrow> jsstring" where
  "join sep [] = []"
| "join sep [x] = x"
| "join sep (x # y # ys) = x @ sep @ join sep (y # ys)"

text \<open>\<open>/^#[0-9A-F]{6}$/i.test(color)\<close>: no \<open>m\<close> flag, so the whole string is matched.\<close>

definition isHexDigit :: "jschar \<Rightarrow> bool" where
  "isHexDigit c \<longleftrightarrow> (0x30 \<le> c \<and> c \<le> 0x39) \<or> (0x41 \<le> c \<and> c \<le> 0x46) \<or> (0x61 \<le> c \<and> c \<le> 0x66)"

definition isValidHex :: "jsstring \<Rightarrow> bool" where
  "isValidHex color =
     (case color of [] \<Rightarrow> False
      | h # ds \<Rightarrow> h = 0x23 \<and> length ds = 6 \<and> list_all isHexDigit ds)"

text \<open>The decimal rendering of an array length inside a template literal.\<close>

function decimal :: "nat \<Rightarrow> jsstring" where
  "decimal n = (if n < 10 then [0x30 + of_nat n] else decimal (n div 10) @ [0x30 + of_nat (n mod 10)])"
  by pat_completeness auto
termination
  by (relation "measure id") auto

declare split.simps [simp del] decimal.simps [simp del]

section \<open>Data model\<close>

text \<open>The interfaces and the enum of \<open>types.ts\<close>.\<close>

datatype DesignStyle = MINIMAL | MATERIAL | IOS | DARK | MODERN | NEUMORPHIC

record Code =
  react :: jsstring
  flutter :: jsstring

record GeneratedScreen =
  title :: jsstring
  imageUrl :: jsstring
  code :: Code

record ColorPalette =
  primary :: jsstring
  secondary :: jsstring
  accent :: jsstring

record GenerateAppScreensResult =
  successfulScreens :: "GeneratedScreen list"
  failedScreenReasons :: "jsstring list"

subsection \<open>The hosted model\<close>

text \<open>
  Every request of the service is one call of \<open>ai.models.generateContent\<close>. The prompt
  sent is a fixed template of the source filled with the arguments of the calling
  function; a request is kept here as the name of its template with those arguments
  (for \<open>editImage\<close>: the image payload, its MIME type and the edit prompt).
\<close>

datatype request =
    PaletteRequest jsstring
  | ScreenNamesRequest jsstring
  | ScreenImageRequest jsstring jsstring DesignStyle jsstring jsstring
  | ReactCodeRequest jsstring jsstring DesignStyle jsstring jsstring
  | FlutterCodeRequest jsstring jsstring DesignStyle jsstring jsstring
  | LogoRequest jsstring DesignStyle jsstring jsstring
  | EditImageRequest jsstring jsstring jsstring

text \<open>
  What the service reads of a response: its text (a string, as the source uses it), and
  \<open>candidates?.[0]?.content?.parts?.[0]\<close> with the \<open>data\<close> of the part's \<open>inlineData\<close>.
  Every link of that chain may be missing.
\<close>

record Blob =
  data :: jsstring

record Part =
  inlineData :: "Blob option"

record Content =
  parts :: "Part list option"

record Candidate =
  content :: "Content option"

record GenerateContentResponse =
  responseText :: jsstring
  candidates :: "Candidate list option"

datatype jserror = Error (message: jsstring)

text \<open>
  The hosted model is an opaque collaborator: a call either rejects with some error or
  resolves with some response, at some moment. The moment only orders the replies of
  calls that are in flight together (\<open>Promise.all\<close> rejects with the rejection that
  comes first).
\<close>

type_synonym service = "request \<Rightarrow> nat \<times> (jserror + GenerateContentResponse)"

text \<open>
  \<open>JSON.parse\<close> is a built-in of the language, taken as a parameter at the shape the
  requested \<open>responseSchema\<close> and the declared TypeScript types give the parsed value:
  a palette object with its three required strings, or an object whose optional
  \<open>screens\<close> is an array of strings. \<open>Inl\<close> is the SyntaxError of a text that is not JSON.
\<close>

record ScreensJson =
  screens :: "jsstring list option"

type_synonym 'a parser = "jsstring \<Rightarrow> jserror + 'a"

section \<open>Promises\<close>

text \<open>
  An async function is modelled by the promise it returns once everything has settled:
  the requests it issued to the hosted model (in program order), the moment it settled,
  and its outcome (\<open>Inl\<close> a rejection reason, \<open>Inr\<close> the fulfilment value).
\<close>

datatype 'a promise =
  Promise (requests: "request list") (settledAt: nat) (outcome: "jserror + 'a")

definition resolve :: "'a \<Rightarrow> 'a promise" where
  "resolve v = Promise [] 0 (Inr v)"

definition throw :: "jserror \<Rightarrow> 'a promise" where
  "throw e = Promise [] 0 (Inl e)"

text \<open>\<open>await p\<close> followed by the rest of the function body \<open>k\<close>.\<close>

definition await :: "'a promise \<Rightarrow> ('a \<Rightarrow> 'b promise) \<Rightarrow> 'b promise" where
  "await p k =
     (case outcome p of
        Inl e \<Rightarrow> Promise (requests p) (settledAt p) (Inl e)
      | Inr v \<Rightarrow> Promise (requests p @ requests (k v)) (max (settledAt p) (settledAt (k v)))
                  (outcome (k v)))"

text \<open>\<open>try { body } catch (error) { handler }\<close>\<close>

definition tryCatch :: "'a promise \<Rightarrow> (jserror \<Rightarrow> 'a promise) \<Rightarrow> 'a promise" where
  "tryCatch body handler =
     (case outcome body of
        Inl e \<Rightarrow> Promise (requests body @ requests (handler e))
                  (max (settledAt body) (settledAt (handler e))) (outcome (handler e))
      | Inr v \<Rightarrow> body)"

text \<open>
  \<open>Promise.all\<close> of two promises: fulfilled with both values once both are, rejected
  with the reason of the promise that rejects first (the first argument's when both
  reject at the same moment). The three-fold one used per screen nests it, which picks
  the earliest of the three rejections.
\<close>

definition Promise_all2 :: "'a promise \<Rightarrow> 'b promise \<Rightarrow> ('a \<times> 'b) promise" where
  "Promise_all2 p q =
     (case (outcome p, outcome q) of
        (Inr a, Inr b) \<Rightarrow> Promise (requests p @ requests q) (max (settledAt p) (settledAt q)) (Inr (a, b))
      | (Inl e, Inr b) \<Rightarrow> Promise (requests p @ requests q) (settledAt p) (Inl e)
      | (Inr a, Inl e) \<Rightarrow> Promise (requests p @ requests q) (settledAt q) (Inl e)
      | (Inl e, Inl e') \<Rightarrow>
          (if settledAt q < settledAt p
           then Promise (requests p @ requests q) (settledAt q) (Inl e')
           else Promise (requests p @ requests q) (settledAt p) (Inl e)))"

definition Promise_all3 :: "'a promise \<Rightarrow> 'b promise \<Rightarrow> 'c promise \<Rightarrow> ('a \<times> 'b \<times> 'c) promise" where
  "Promise_all3 p q r = Promise_all2 p (Promise_all2 q r)"

text \<open>\<open>Promise.allSettled\<close>: never rejects, keeps the outcomes in the order of the promises.\<close>

definition Promise_allSettled :: "'a promise list \<Rightarrow> (jserror + 'a) list promise" where
  "Promise_allSettled ps =
     Promise (concat (map requests ps)) (foldr max (map settledAt ps) 0) (Inr (map outcome ps))"

definition generateContent :: "service \<Rightarrow> request \<Rightarrow> GenerateContentResponse promise" where
  "generateContent svc req = (case svc req of (t, reply) \<Rightarrow> Promise [req] t reply)"

text \<open>\<open>response.candidates?.[0]?.content?.parts?.[0]\<close>\<close>

definition firstPartOf :: "GenerateContentResponse \<Rightarrow> Part option" where
  "firstPartOf response =
     (case candidates response of None \<Rightarrow> None
      | Some cs \<Rightarrow> (case cs of [] \<Rightarrow> None
      | c # _ \<Rightarrow> (case content c of None \<Rightarrow> None
      | Some ct \<Rightarrow> (case parts ct of None \<Rightarrow> None
      | Some ps \<Rightarrow> (case ps of [] \<Rightarrow> None | p # _ \<Rightarrow> Some p)))))"

section \<open>The service (\<open>services/geminiService.ts\<close>)\<close>

text \<open>
  The functions of the service, in the order of the source. The module only loads when
  \<open>API_KEY\<close> is set; what the functions write to the console is left out. The
  error a \<open>catch\<close> block receives is never looked at: each block throws a fresh
  \<open>Error\<close> with its own message.
\<close>

definition generateColorPalette :: "service \<Rightarrow> ColorPalette parser \<Rightarrow> jsstring \<Rightarrow> ColorPalette promise" where
  "generateColorPalette svc JSON_parse baseColor =
     tryCatch
       (await (generateContent svc (PaletteRequest baseColor)) (\<lambda>response.
          case JSON_parse (responseText response) of
            Inl e \<Rightarrow> throw e
          | Inr palette \<Rightarrow>
              if \<not> isValidHex (primary palette) \<or> \<not> isValidHex (secondary palette)
                 \<or> \<not> isValidHex (accent palette)
              then throw (Error (js ''AI returned invalid hex codes.''))
              else resolve palette))
       (\<lambda>error. throw (Error (js ''Failed to generate a valid color palette from the AI.'')))"

definition extractScreenNames :: "service \<Rightarrow> ScreensJson parser \<Rightarrow> jsstring \<Rightarrow> jsstring list promise" where
  "extractScreenNames svc JSON_parse prompt =
     tryCatch
       (await (generateContent svc (ScreenNamesRequest prompt)) (\<lambda>response.
          case JSON_parse (responseText response) of
            Inl e \<Rightarrow> throw e
          | Inr jsonResponse \<Rightarrow>
              resolve (case screens jsonResponse of None \<Rightarrow> [] | Some names \<Rightarrow> names)))
       (\<lambda>error. throw (Error (js ''Failed to parse app description. Please try rephrasing your idea.'')))"

definition dataUrl :: "jsstring \<Rightarrow> jsstring" where
  "dataUrl base64ImageBytes = js ''data:image/png;base64,'' @ base64ImageBytes"

definition generateScreenImage ::
  "service \<Rightarrow> jsstring \<Rightarrow> jsstring \<Rightarrow> DesignStyle \<Rightarrow> jsstring \<Rightarrow> jsstring \<Rightarrow> jsstring promise" where
  "generateScreenImage svc screenName appDescription style primaryColor secondaryColor =
     tryCatch
       (await (generateContent svc
                 (ScreenImageRequest screenName appDescription style primaryColor secondaryColor))
          (\<lambda>response.
             case firstPartOf response of
               Some firstPart \<Rightarrow>
                 (case inlineData firstPart of
                    Some blob \<Rightarrow> resolve (dataUrl (data blob))
                  | None \<Rightarrow> throw (Error (js ''No image data found in response for '' @ screenName @ js ''.'')))
             | None \<Rightarrow> throw (Error (js ''No image data found in response for '' @ screenName @ js ''.''))))
       (\<lambda>error. throw (Error (js ''Failed to generate UI for '' @ screenName @ js ''.'')))"

definition reactComponent :: "jsstring \<Rightarrow> jsstring \<Rightarrow> jsstring" where
  "reactComponent componentName rawCode =
     js ''import React from '' @ sq @ js ''react'' @ sq @ js '';'' @ nl
     @ nl
     @ js ''const '' @ componentName @ js '' = () => {'' @ nl
     @ js ''  return ('' @ nl
     @ join nl (map (\<lambda>line. js ''    '' @ line) (split 0x0A rawCode)) @ nl
     @ js ''  );'' @ nl
     @ js ''};'' @ nl
     @ nl
     @ js ''export default '' @ componentName @ js '';'' @ nl"

definition generateScreenCodeReact ::
  "service \<Rightarrow> jsstring \<Rightarrow> jsstring \<Rightarrow> DesignStyle \<Rightarrow> jsstring \<Rightarrow> jsstring \<Rightarrow> jsstring promise" where
  "generateScreenCodeReact svc screenName appDescription style primaryColor secondaryColor =
     tryCatch
       (await (generateContent svc
                 (ReactCodeRequest screenName appDescription style primaryColor secondaryColor))
          (\<lambda>response.
             let rawCode = trim (stripFences (js ''jsx'') (responseText response)) in
             if rawCode = [] \<or> length rawCode < 50
             then throw (Error (js ''AI returned empty or invalid code.''))
             else let componentName = removeNonAlnum screenName in
                  resolve (reactComponent componentName rawCode)))
       (\<lambda>error. throw (Error (js ''Failed to generate React code for '' @ dq @ screenName @ dq @ js ''.'')))"

definition flutterWidget :: "jsstring \<Rightarrow> jsstring" where
  "flutterWidget rawCode =
     js ''import '' @ sq @ js ''package:flutter/material.dart'' @ sq @ js '';'' @ nl
     @ nl
     @ rawCode @ nl"

definition generateScreenCodeFlutter ::
  "service \<Rightarrow> jsstring \<Rightarrow> jsstring \<Rightarrow> DesignStyle \<Rightarrow> jsstring \<Rightarrow> jsstring \<Rightarrow> jsstring promise" where
  "generateScreenCodeFlutter svc screenName appDescription style primaryColor secondaryColor =
     tryCatch
       (await (generateContent svc
                 (FlutterCodeRequest screenName appDescription style primaryColor secondaryColor))
          (\<lambda>response.
             let rawCode = trim (stripFences (js ''dart'') (responseText response)) in
             if rawCode = [] \<or> length rawCode < 50
             then throw (Error (js ''AI returned empty or invalid code.''))
             else resolve (flutterWidget rawCode)))
       (\<lambda>error. throw (Error (js ''Failed to generate Flutter code for '' @ dq @ screenName @ dq @ js ''.'')))"

definition generateLogo ::
  "service \<Rightarrow> jsstring \<Rightarrow> DesignStyle \<Rightarrow> jsstring \<Rightarrow> jsstring \<Rightarrow> jsstring promise" where
  "generateLogo svc appDescription style primaryColor secondaryColor =
     tryCatch
       (await (generateContent svc (LogoRequest appDescription style primaryColor secondaryColor))
          (\<lambda>response.
             case firstPartOf response of
               Some firstPart \<Rightarrow>
                 (case inlineData firstPart of
                    Some blob \<Rightarrow> resolve (dataUrl (data blob))
                  | None \<Rightarrow> throw (Error (js ''No image data found for logo in response.'')))
             | None \<Rightarrow> throw (Error (js ''No image data found for logo in response.''))))
       (\<lambda>error. throw (Error (js ''Failed to generate a logo for the app.'')))"

text \<open>
  The hosted model need not answer two equal requests alike, so \<open>generateAppScreens\<close>
  takes it as a family: \<open>ai (Suc i)\<close> is the model as it answers the three calls made
  for the screen at position \<open>i\<close>, and \<open>ai 0\<close> as it answers every call that belongs to
  no screen.
\<close>

definition screenPromise ::
  "(nat \<Rightarrow> service) \<Rightarrow> jsstring \<Rightarrow> DesignStyle \<Rightarrow> jsstring \<Rightarrow> jsstring \<Rightarrow> nat \<times> jsstring
     \<Rightarrow> GeneratedScreen promise" where
  "screenPromise ai prompt style primaryColor secondaryColor = (\<lambda>(i, name).
     await (Promise_all3
              (generateScreenImage (ai (Suc i)) name prompt style primaryColor secondaryColor)
              (generateScreenCodeReact (ai (Suc i)) name prompt style primaryColor secondaryColor)
              (generateScreenCodeFlutter (ai (Suc i)) name prompt style primaryColor secondaryColor))
       (\<lambda>(imageUrl, reactCode, flutterCode).
          resolve \<lparr>title = name, imageUrl = imageUrl,
                   code = \<lparr>react = reactCode, flutter = flutterCode\<rparr>\<rparr>))"

text \<open>\<open>a || b\<close> on strings: the empty string is falsy.\<close>

definition orElse :: "jsstring \<Rightarrow> jsstring \<Rightarrow> jsstring" where
  "orElse a b = (if a = [] then b else a)"

text \<open>The body of \<open>results.forEach\<close>, pushing onto one of the two arrays.\<close>

definition pushResult ::
  "GenerateAppScreensResult \<Rightarrow> jserror + GeneratedScreen \<Rightarrow> GenerateAppScreensResult" where
  "pushResult acc result =
     (case result of
        Inr v \<Rightarrow> acc\<lparr>successfulScreens := successfulScreens acc @ [v]\<rparr>
      | Inl reason \<Rightarrow>
          acc\<lparr>failedScreenReasons := failedScreenReasons acc
                 @ [orElse (message reason) (js ''An unknown screen generation error occurred.'')]\<rparr>)"

definition noScreensMessage :: jsstring where
  "noScreensMessage =
     js ''Could not identify any screens from your description. Please be more specific about the pages you need, e.g., ''
     @ sq @ js ''login page'' @ sq @ js '', '' @ sq @ js ''dashboard'' @ sq @ js ''.''"

definition generateAppScreens ::
  "(nat \<Rightarrow> service) \<Rightarrow> ScreensJson parser \<Rightarrow> jsstring \<Rightarrow> DesignStyle \<Rightarrow> jsstring \<Rightarrow> jsstring
     \<Rightarrow> GenerateAppScreensResult promise" where
  "generateAppScreens ai JSON_parse prompt style primaryColor secondaryColor =
     await (extractScreenNames (ai 0) JSON_parse prompt) (\<lambda>screenNames.
       if screenNames = [] then throw (Error noScreensMessage)
       else
         let screenPromises =
               map (screenPromise ai prompt style primaryColor secondaryColor)
                 (enumerate 0 screenNames)
         in await (Promise_allSettled screenPromises) (\<lambda>results.
              resolve (foldl pushResult \<lparr>successfulScreens = [], failedScreenReasons = []\<rparr> results)))"

definition editImage :: "service \<Rightarrow> jsstring \<Rightarrow> jsstring \<Rightarrow> jsstring \<Rightarrow> jsstring promise" where
  "editImage svc base64ImageData mimeType prompt =
     (let pureBase64 = (case split 0x2C base64ImageData of _ # seg # _ \<Rightarrow> Some seg | _ \<Rightarrow> None)
      in case pureBase64 of
           None \<Rightarrow> throw (Error (js ''Invalid base64 image data provided.''))
         | Some payload \<Rightarrow>
             if payload = [] then throw (Error (js ''Invalid base64 image data provided.''))
             else
               tryCatch
                 (await (generateContent svc (EditImageRequest payload mimeType prompt))
                    (\<lambda>response.
                       case firstPartOf response of
                         Some firstPart \<Rightarrow>
                           (case inlineData firstPart of
                              Some blob \<Rightarrow> resolve (dataUrl (data blob))
                            | None \<Rightarrow> throw (Error (js ''No edited image data found in response.'')))
                       | None \<Rightarrow> throw (Error (js ''No edited image data found in response.''))))
                 (\<lambda>error. throw (Error (js ''Failed to edit the image with the provided prompt.''))))"

section \<open>The generate handler (\<open>App.tsx\<close>)\<close>

text \<open>
  The part of the component state that \<open>handleGenerate\<close> reads and writes. A
  notification is kept as its message and type; its timestamp id and its removal after
  five seconds are left out.
\<close>

datatype NotificationType = success | error

datatype Notification = Notification (notificationMessage: jsstring) (notificationType: NotificationType)

record AppState =
  notifications :: "Notification list"
  prompt :: jsstring
  selectedStyle :: DesignStyle
  palette :: "ColorPalette option"
  generatedScreens :: "GeneratedScreen list"
  logoImageUrl :: "jsstring option"
  isLoading :: bool
  showFigmaInstructions :: bool

definition showNotification :: "jsstring \<Rightarrow> NotificationType \<Rightarrow> AppState \<Rightarrow> AppState" where
  "showNotification msg type st = st\<lparr>notifications := notifications st @ [Notification msg type]\<rparr>"

text \<open>
  The \<open>try\<close> block once \<open>Promise.all\<close> has fulfilled: the state it leaves, and the error
  it throws, if any.
\<close>

definition showResults :: "GenerateAppScreensResult \<Rightarrow> jsstring \<Rightarrow> AppState \<Rightarrow> AppState \<times> jserror option" where
  "showResults screenResult logoUrl st =
     (let st1 = st\<lparr>generatedScreens := successfulScreens screenResult, logoImageUrl := Some logoUrl\<rparr>;
          st2 = (if length (successfulScreens screenResult) > 0
                 then showNotification
                        (js ''Successfully generated '' @ decimal (length (successfulScreens screenResult))
                           @ js '' screen(s)!'') success st1
                 else st1);
          st3 = (if length (failedScreenReasons screenResult) > 0
                 then showNotification
                        (js ''Could not generate some screens: ''
                           @ join (js '', '') (take 2 (failedScreenReasons screenResult))) error st2
                 else st2)
      in if length (successfulScreens screenResult) = 0 \<and> length (failedScreenReasons screenResult) > 0
         then (st3, Some (Error (js ''Failed to generate any screens. Please try refining your prompt.'')))
         else (st3, None))"

definition handleGenerate :: "(nat \<Rightarrow> service) \<Rightarrow> ScreensJson parser \<Rightarrow> AppState \<Rightarrow> AppState" where
  "handleGenerate ai JSON_parse st =
     (if prompt st = [] then showNotification (js ''Please enter an app description.'') error st
      else case palette st of
        None \<Rightarrow> showNotification (js ''Please generate a color palette first.'') error st
      | Some pal \<Rightarrow>
          let st0 = st\<lparr>isLoading := True, generatedScreens := [], logoImageUrl := None,
                       showFigmaInstructions := False\<rparr>;
              (st1, thrown) =
                (case outcome (Promise_all2
                         (generateAppScreens ai JSON_parse (prompt st) (selectedStyle st)
                            (primary pal) (secondary pal))
                         (generateLogo (ai 0) (prompt st) (selectedStyle st)
                            (primary pal) (secondary pal))) of
                   Inl e \<Rightarrow> (st0, Some e)
                 | Inr (screenResult, logoUrl) \<Rightarrow> showResults screenResult logoUrl st0);
              st2 = (case thrown of
                       Some e \<Rightarrow> showNotification
                                   (orElse (message e) (js ''An unknown error occurred during generation.''))
                                   error st1
                     | None \<Rightarrow> st1)
          in st2\<lparr>isLoading := False\<rparr>)"

section \<open>Terms of the specification\<close>

text \<open>
  The inline image bytes of a response, when its first candidate's first part has
  inline data.
\<close>

definition inlineImageData :: "GenerateContentResponse \<Rightarrow> jsstring option" where
  "inlineImageData response =
     (case firstPartOf response of None \<Rightarrow> None | Some p \<Rightarrow> map_option data (inlineData p))"

text \<open>
  The screen at position \<open>i\<close> is a failed one when any of its three requests (image,
  React code, Flutter code) rejects.
\<close>

definition screenRejects ::
  "(nat \<Rightarrow> service) \<Rightarrow> jsstring \<Rightarrow> DesignStyle \<Rightarrow> jsstring \<Rightarrow> jsstring \<Rightarrow> nat \<Rightarrow> jsstring \<Rightarrow> bool" where
  "screenRejects ai description style primaryColor secondaryColor i name \<longleftrightarrow>
     isl (outcome (generateScreenImage (ai (Suc i)) name description style primaryColor secondaryColor))
     \<or> isl (outcome (generateScreenCodeReact (ai (Suc i)) name description style primaryColor secondaryColor))
     \<or> isl (outcome (generateScreenCodeFlutter (ai (Suc i)) name description style primaryColor secondaryColor))"

text \<open>
  A text with its fences removed, as the global replace of the regular expression
  removes them: the text is kept up to its leftmost fence, that fence is removed
  (together with the language tag when the tag follows it, alone otherwise), and the
  same is done with what follows. No fence begins inside a kept piece; the two
  backquotes after it stand for the start of the fence that ends it.
\<close>

inductive fencesRemoved :: "jsstring \<Rightarrow> jsstring \<Rightarrow> jsstring \<Rightarrow> bool" for lang where
  no_fence: "\<not> sublist (js ''```'') rest \<Longrightarrow> fencesRemoved lang rest rest"
| tagged_fence:
    "\<not> sublist (js ''```'') (kept @ js ''``'') \<Longrightarrow> fencesRemoved lang following result \<Longrightarrow>
       fencesRemoved lang (kept @ js ''```'' @ lang @ following) (kept @ result)"
| bare_fence:
    "\<not> sublist (js ''```'') (kept @ js ''``'') \<Longrightarrow> \<not> prefix lang following \<Longrightarrow>
       fencesRemoved lang following result \<Longrightarrow>
       fencesRemoved lang (kept @ js ''```'' @ following) (kept @ result)"

text \<open>
  A string trimmed: some white space is taken off its two ends, and what is left
  neither starts nor ends with white space.
\<close>

definition trimmedTo :: "jsstring \<Rightarrow> jsstring \<Rightarrow> bool" where
  "trimmedTo s t \<longleftrightarrow>
     (\<exists>lead trail. s = lead @ t @ trail
        \<and> list_all isWhiteSpace lead \<and> list_all isWhiteSpace trail
        \<and> (t = [] \<or> (\<not> isWhiteSpace (hd t) \<and> \<not> isWhiteSpace (last t))))"

text \<open>
  Each line of a string indented by four spaces: four spaces in front of the string
  and after each of its line feeds, and nothing else changed.
\<close>

definition indentedLines :: "jsstring \<Rightarrow> jsstring" where
  "indentedLines s =
     js ''    '' @ concat (map (\<lambda>c. if c = 0x0A then 0x0A # js ''    '' else [c]) s)"

text \<open>
  The failure reasons as the handler lists them in one notification: the first two
  of them, separated by a comma and a space.
\<close>

definition firstTwoReasons :: "jsstring list \<Rightarrow> jsstring" where
  "firstTwoReasons reasons =
     (case reasons of
        [] \<Rightarrow> []
      | [only] \<Rightarrow> only
      | first # second # _ \<Rightarrow> first @ js '', '' @ second)"

section \<open>Sample runs\<close>

text \<open>Concrete replies of the hosted model, on which the theorems below are exercised.\<close>

definition imageResponse :: "jsstring \<Rightarrow> GenerateContentResponse" where
  "imageResponse bytes =
     \<lparr>responseText = [],
      candidates = Some [\<lparr>content = Some \<lparr>parts = Some [\<lparr>inlineData = Some \<lparr>data = bytes\<rparr>\<rparr>]\<rparr>\<rparr>]\<rparr>"

definition textResponse :: "jsstring \<Rightarrow> GenerateContentResponse" where
  "textResponse t = \<lparr>responseText = t, candidates = None\<rparr>"

definition sampleCode :: jsstring where
  "sampleCode =
     js ''```jsx'' @ nl @ js ''<div className=x>'' @ nl
     @ js ''  <p>0123456789012345678901234567890123456789</p>'' @ nl
     @ js ''</div>'' @ nl @ js ''```''"

definition sampleDart :: jsstring where
  "sampleDart =
     js ''```dart'' @ nl @ js ''class HomeScreen extends StatelessWidget {'' @ nl
     @ js ''  const HomeScreen({super.key});'' @ nl
     @ js ''}'' @ nl @ js ''```''"

definition dartService :: service where
  "dartService req = (1, Inr (textResponse sampleDart))"

definition goodService :: service where
  "goodService req =
     (case req of
        ScreenImageRequest _ _ _ _ _ \<Rightarrow> (2, Inr (imageResponse (js ''QUJD'')))
      | LogoRequest _ _ _ _ \<Rightarrow> (2, Inr (imageResponse (js ''QUJD'')))
      | EditImageRequest _ _ _ \<Rightarrow> (2, Inr (imageResponse (js ''QUJD'')))
      | _ \<Rightarrow> (1, Inr (textResponse sampleCode)))"

definition textOnlyService :: service where
  "textOnlyService req = (1, Inr (textResponse (js ''```jsx <div/> ```'')))"

definition downService :: service where
  "downService req = (3, Inl (Error (js ''503'')))"

definition allGood :: "nat \<Rightarrow> service" where
  "allGood k = goodService"

definition secondScreenDown :: "nat \<Rightarrow> service" where
  "secondScreenDown k = (if k = 2 then downService else goodService)"

definition allScreensDown :: "nat \<Rightarrow> service" where
  "allScreensDown k = (if k = 0 then goodService else downService)"

definition logoDown :: "nat \<Rightarrow> service" where
  "logoDown k req = (case req of LogoRequest _ _ _ _ \<Rightarrow> downService req | _ \<Rightarrow> goodService req)"

definition logoAndSecondScreenDown :: "nat \<Rightarrow> service" where
  "logoAndSecondScreenDown k req =
     (case req of LogoRequest _ _ _ _ \<Rightarrow> downService req | _ \<Rightarrow> secondScreenDown k req)"

definition everythingDown :: "nat \<Rightarrow> service" where
  "everythingDown k req = (case req of ScreenNamesRequest _ \<Rightarrow> goodService req | _ \<Rightarrow> downService req)"

definition threeScreens :: "ScreensJson parser" where
  "threeScreens t = Inr \<lparr>screens = Some [js ''Home'', js ''Log in!'', js ''Home'']\<rparr>"

definition noScreensKey :: "ScreensJson parser" where
  "noScreensKey t = Inr \<lparr>screens = None\<rparr>"

definition goodPalette :: "ColorPalette parser" where
  "goodPalette t = Inr \<lparr>primary = js ''#A78BFA'', secondary = js ''#2dd4bf'', accent = js ''#F59E0B''\<rparr>"

definition badPalette :: "ColorPalette parser" where
  "badPalette t = Inr \<lparr>primary = js ''#A78BFA'', secondary = js ''teal'', accent = js ''#F59E0B''\<rparr>"

definition sampleScreen :: "jsstring \<Rightarrow> GeneratedScreen" where
  "sampleScreen name =
     \<lparr>title = name, imageUrl = js ''data:image/png;base64,QUJD'',
      code = \<lparr>react = reactComponent (removeNonAlnum name) (trim (stripFences (js ''jsx'') sampleCode)),
               flutter = flutterWidget (trim (stripFences (js ''dart'') sampleCode))\<rparr>\<rparr>"

definition initialState :: AppState where
  "initialState =
     \<lparr>notifications = [], prompt = js ''A recipe app'', selectedStyle = MODERN,
      palette = Some \<lparr>primary = js ''#A78BFA'', secondary = js ''#2DD4BF'', accent = js ''#F59E0B''\<rparr>,
      generatedScreens = [], logoImageUrl = None, isLoading = False,
      showFigmaInstructions = False\<rparr>"

section \<open>How promises compose\<close>

lemma outcome_await:
  "outcome (await p k) = (case outcome p of Inl e \<Rightarrow> Inl e | Inr v \<Rightarrow> outcome (k v))"
  by (simp add: await_def split: sum.split)

lemma requests_await:
  "requests (await p k) =
     (case outcome p of Inl e \<Rightarrow> requests p | Inr v \<Rightarrow> requests p @ requests (k v))"
  by (simp add: await_def split: sum.split)

lemma outcome_tryCatch:
  "outcome (tryCatch body handler) =
     (case outcome body of Inl e \<Rightarrow> outcome (handler e) | Inr v \<Rightarrow> Inr v)"
  by (simp add: tryCatch_def split: sum.split)

lemma requests_tryCatch:
  "requests (tryCatch body handler) =
     (case outcome body of Inl e \<Rightarrow> requests body @ requests (handler e) | Inr v \<Rightarrow> requests body)"
  by (simp add: tryCatch_def split: sum.split)

lemma outcome_generateContent: "outcome (generateContent svc req) = snd (svc req)"
  by (simp add: generateContent_def split: prod.split)

lemma requests_generateContent: "requests (generateContent svc req) = [req]"
  by (simp add: generateContent_def split: prod.split)

lemma outcome_resolve: "outcome (resolve v) = Inr v"
  by (simp add: resolve_def)

lemma outcome_throw: "outcome (throw e) = Inl e"
  by (simp add: throw_def)

lemma requests_resolve: "requests (resolve v) = []"
  by (simp add: resolve_def)

lemma requests_throw: "requests (throw e) = []"
  by (simp add: throw_def)

lemmas promise_simps = outcome_await requests_await outcome_tryCatch requests_tryCatch
  outcome_generateContent requests_generateContent outcome_resolve outcome_throw
  requests_resolve requests_throw

lemma outcome_Promise_all2:
  "outcome (Promise_all2 p q) =
     (case (outcome p, outcome q) of
        (Inr a, Inr b) \<Rightarrow> Inr (a, b)
      | (Inl e, Inr b) \<Rightarrow> Inl e
      | (Inr a, Inl e) \<Rightarrow> Inl e
      | (Inl e, Inl e') \<Rightarrow> Inl (if settledAt q < settledAt p then e' else e))"
  by (simp add: Promise_all2_def split: sum.split)

lemma requests_Promise_all2: "requests (Promise_all2 p q) = requests p @ requests q"
  by (simp add: Promise_all2_def split: sum.split)

section \<open>The three image operations\<close>

lemma outcome_generateScreenImage:
  "outcome (generateScreenImage svc n d s p q) =
     (case snd (svc (ScreenImageRequest n d s p q)) of
        Inl e \<Rightarrow> Inl (Error (js ''Failed to generate UI for '' @ n @ js ''.''))
      | Inr response \<Rightarrow>
          (case inlineImageData response of
             None \<Rightarrow> Inl (Error (js ''Failed to generate UI for '' @ n @ js ''.''))
           | Some bytes \<Rightarrow> Inr (js ''data:image/png;base64,'' @ bytes)))"
  by (simp add: generateScreenImage_def promise_simps inlineImageData_def dataUrl_def
      split: sum.split option.split)

lemma outcome_generateLogo:
  "outcome (generateLogo svc d s p q) =
     (case snd (svc (LogoRequest d s p q)) of
        Inl e \<Rightarrow> Inl (Error (js ''Failed to generate a logo for the app.''))
      | Inr response \<Rightarrow>
          (case inlineImageData response of
             None \<Rightarrow> Inl (Error (js ''Failed to generate a logo for the app.''))
           | Some bytes \<Rightarrow> Inr (js ''data:image/png;base64,'' @ bytes)))"
  by (simp add: generateLogo_def promise_simps inlineImageData_def dataUrl_def
      split: sum.split option.split)

text \<open>The second segment of \<open>s.split(sep)\<close>, read off the string itself.\<close>

lemma split_unfold:
  "split sep s =
     takeWhile (\<lambda>c. c \<noteq> sep) s
       # (case dropWhile (\<lambda>c. c \<noteq> sep) s of [] \<Rightarrow> [] | _ # rest \<Rightarrow> split sep rest)"
proof (cases "dropWhile (\<lambda>c. c \<noteq> sep) s")
  case Nil
  then show ?thesis by (subst split.simps) (simp only: list.case)
next
  case (Cons c rest)
  then show ?thesis by (subst split.simps) (simp only: list.case)
qed

lemma split_second_segment:
  "(case split sep s of _ # seg # _ \<Rightarrow> Some seg | _ \<Rightarrow> None) =
     (case dropWhile (\<lambda>c. c \<noteq> sep) s of
        [] \<Rightarrow> None
      | _ # rest \<Rightarrow> Some (takeWhile (\<lambda>c. c \<noteq> sep) rest))"
proof (cases "dropWhile (\<lambda>c. c \<noteq> sep) s")
  case Nil
  then show ?thesis by (subst split_unfold) (simp only: list.case)
next
  case (Cons c rest)
  have "split sep s = takeWhile (\<lambda>c. c \<noteq> sep) s # split sep rest"
    by (subst split_unfold) (simp only: Cons list.case)
  also have "split sep rest = takeWhile (\<lambda>c. c \<noteq> sep) rest
       # (case dropWhile (\<lambda>c. c \<noteq> sep) rest of [] \<Rightarrow> [] | _ # rest' \<Rightarrow> split sep rest')"
    by (rule split_unfold)
  finally show ?thesis by (simp only: Cons list.case)
qed

lemma editImage_cases:
  "editImage svc b m e =
     (case dropWhile (\<lambda>c. c \<noteq> 0x2C) b of
        [] \<Rightarrow> throw (Error (js ''Invalid base64 image data provided.''))
      | _ # rest \<Rightarrow>
          if takeWhile (\<lambda>c. c \<noteq> 0x2C) rest = []
          then throw (Error (js ''Invalid base64 image data provided.''))
          else tryCatch
                 (await (generateContent svc (EditImageRequest (takeWhile (\<lambda>c. c \<noteq> 0x2C) rest) m e))
                    (\<lambda>response.
                       case firstPartOf response of
                         Some firstPart \<Rightarrow>
                           (case inlineData firstPart of
                              Some blob \<Rightarrow> resolve (dataUrl (data blob))
                            | None \<Rightarrow> throw (Error (js ''No edited image data found in response.'')))
                       | None \<Rightarrow> throw (Error (js ''No edited image data found in response.''))))
                 (\<lambda>error. throw (Error (js ''Failed to edit the image with the provided prompt.''))))"
proof (cases "dropWhile (\<lambda>c. c \<noteq> 0x2C) b")
  case Nil
  then show ?thesis
    unfolding editImage_def Let_def split_second_segment by (simp only: list.case option.case)
next
  case (Cons c rest)
  then show ?thesis
    unfolding editImage_def Let_def split_second_segment by (simp only: list.case option.case)
qed

lemma outcome_editImage:
  assumes "dropWhile (\<lambda>c. c \<noteq> 0x2C) b = c # rest"
    and "takeWhile (\<lambda>c. c \<noteq> 0x2C) rest = payload" and "payload \<noteq> []"
  shows "outcome (editImage svc b m e) =
     (case snd (svc (EditImageRequest payload m e)) of
        Inl err \<Rightarrow> Inl (Error (js ''Failed to edit the image with the provided prompt.''))
      | Inr response \<Rightarrow>
          (case inlineImageData response of
             None \<Rightarrow> Inl (Error (js ''Failed to edit the image with the provided prompt.''))
           | Some bytes \<Rightarrow> Inr (js ''data:image/png;base64,'' @ bytes)))"
proof -
  have "editImage svc b m e =
      tryCatch
        (await (generateContent svc (EditImageRequest payload m e))
           (\<lambda>response.
              case firstPartOf response of
                Some firstPart \<Rightarrow>
                  (case inlineData firstPart of
                     Some blob \<Rightarrow> resolve (dataUrl (data blob))
                   | None \<Rightarrow> throw (Error (js ''No edited image data found in response.'')))
              | None \<Rightarrow> throw (Error (js ''No edited image data found in response.''))))
        (\<lambda>error. throw (Error (js ''Failed to edit the image with the provided prompt.'')))"
    unfolding editImage_cases using assms by (simp only: list.case if_False)
  then show ?thesis
    by (simp add: promise_simps inlineImageData_def dataUrl_def split: sum.split option.split)
qed

lemma dropWhile_upto_sep:
  "sep \<notin> set xs \<Longrightarrow> dropWhile (\<lambda>c. c \<noteq> sep) (xs @ sep # ys) = sep # ys"
  by (induction xs) auto

lemma takeWhile_upto_sep:
  "sep \<notin> set xs \<Longrightarrow> takeWhile (\<lambda>c. c \<noteq> sep) (xs @ sep # ys) = xs"
  by (induction xs) auto

lemma takeWhile_no_sep:
  "sep \<notin> set xs \<Longrightarrow> takeWhile (\<lambda>c. c \<noteq> sep) xs = xs"
  by (induction xs) auto

text \<open>
  Claim C7. For each image-producing operation (the mockup image of a screen, the logo,
  the image edit), a response of the model whose first candidate's first part holds no
  inline image data makes the operation fail with the error message of that very
  screen or operation; when inline data is there, the operation returns the data URL
  \<open>data:image/png;base64,\<close> followed by those bytes. For \<open>editImage\<close> the model is
  only asked when the given data URL has a payload after its first comma.
\<close>

theorem image_operations_need_inline_data:
  "(snd (svc (ScreenImageRequest n d s p q)) = Inr response \<longrightarrow>
      outcome (generateScreenImage svc n d s p q) =
        (case inlineImageData response of
           None \<Rightarrow> Inl (Error (js ''Failed to generate UI for '' @ n @ js ''.''))
         | Some bytes \<Rightarrow> Inr (js ''data:image/png;base64,'' @ bytes)))
   \<and> (snd (svc (LogoRequest d s p q)) = Inr response \<longrightarrow>
      outcome (generateLogo svc d s p q) =
        (case inlineImageData response of
           None \<Rightarrow> Inl (Error (js ''Failed to generate a logo for the app.''))
         | Some bytes \<Rightarrow> Inr (js ''data:image/png;base64,'' @ bytes)))
   \<and> (0x2C \<notin> set header \<and> 0x2C \<notin> set payload \<and> payload \<noteq> []
        \<and> (rest = [] \<or> hd rest = 0x2C)
        \<and> snd (svc (EditImageRequest payload m e)) = Inr response \<longrightarrow>
      outcome (editImage svc (header @ [0x2C] @ payload @ rest) m e) =
        (case inlineImageData response of
           None \<Rightarrow> Inl (Error (js ''Failed to edit the image with the provided prompt.''))
         | Some bytes \<Rightarrow> Inr (js ''data:image/png;base64,'' @ bytes)))"
proof (intro conjI impI)
  assume "snd (svc (ScreenImageRequest n d s p q)) = Inr response"
  then show "outcome (generateScreenImage svc n d s p q) =
        (case inlineImageData response of
           None \<Rightarrow> Inl (Error (js ''Failed to generate UI for '' @ n @ js ''.''))
         | Some bytes \<Rightarrow> Inr (js ''data:image/png;base64,'' @ bytes))"
    by (simp add: outcome_generateScreenImage)
next
  assume "snd (svc (LogoRequest d s p q)) = Inr response"
  then show "outcome (generateLogo svc d s p q) =
        (case inlineImageData response of
           None \<Rightarrow> Inl (Error (js ''Failed to generate a logo for the app.''))
         | Some bytes \<Rightarrow> Inr (js ''data:image/png;base64,'' @ bytes))"
    by (simp add: outcome_generateLogo)
next
  assume h: "0x2C \<notin> set header \<and> 0x2C \<notin> set payload \<and> payload \<noteq> []
      \<and> (rest = [] \<or> hd rest = 0x2C)
      \<and> snd (svc (EditImageRequest payload m e)) = Inr response"
  have d: "dropWhile (\<lambda>c. c \<noteq> 0x2C) (header @ [0x2C] @ payload @ rest) = 0x2C # payload @ rest"
    using h dropWhile_upto_sep [of "0x2C" header "payload @ rest"] by simp
  have t: "takeWhile (\<lambda>c. c \<noteq> 0x2C) (payload @ rest) = payload"
  proof (cases rest)
    case Nil
    then show ?thesis using h by (simp add: takeWhile_no_sep)
  next
    case (Cons c cs)
    then have "c = 0x2C" using h by simp
    then show ?thesis using h Cons by (simp add: takeWhile_upto_sep)
  qed
  show "outcome (editImage svc (header @ [0x2C] @ payload @ rest) m e) =
        (case inlineImageData response of
           None \<Rightarrow> Inl (Error (js ''Failed to edit the image with the provided prompt.''))
         | Some bytes \<Rightarrow> Inr (js ''data:image/png;base64,'' @ bytes))"
    using outcome_editImage [OF d t, of svc m e] h by simp
qed

lemma inlineImageData_imageResponse: "inlineImageData (imageResponse bytes) = Some bytes"
  by (simp add: inlineImageData_def imageResponse_def firstPartOf_def)

lemma inlineImageData_textResponse: "inlineImageData (textResponse t) = None"
  by (simp add: inlineImageData_def textResponse_def firstPartOf_def)

theorem image_operations_need_inline_data_witness:
  "outcome (generateScreenImage goodService (js ''Home'') (js ''A recipe app'') MODERN (js ''#A78BFA'') (js ''#2DD4BF''))
     = Inr (js ''data:image/png;base64,'' @ js ''QUJD'')
   \<and> outcome (generateLogo textOnlyService (js ''A recipe app'') MODERN (js ''#A78BFA'') (js ''#2DD4BF''))
     = Inl (Error (js ''Failed to generate a logo for the app.''))
   \<and> outcome (editImage goodService (js ''data:image/png;base64'' @ [0x2C] @ js ''AAAA'' @ []) (js ''image/png'') (js ''Add a cat''))
     = Inr (js ''data:image/png;base64,'' @ js ''QUJD'')"
proof -
  have a: "snd (goodService (ScreenImageRequest (js ''Home'') (js ''A recipe app'') MODERN (js ''#A78BFA'') (js ''#2DD4BF'')))
      = Inr (imageResponse (js ''QUJD''))"
    by (simp add: goodService_def)
  have b: "snd (textOnlyService (LogoRequest (js ''A recipe app'') MODERN (js ''#A78BFA'') (js ''#2DD4BF'')))
      = Inr (textResponse (js ''```jsx <div/> ```''))"
    by (simp add: textOnlyService_def)
  have c: "0x2C \<notin> set (js ''data:image/png;base64'') \<and> 0x2C \<notin> set (js ''AAAA'') \<and> js ''AAAA'' \<noteq> []
      \<and> ([] = [] \<or> hd [] = (0x2C :: jschar))
      \<and> snd (goodService (EditImageRequest (js ''AAAA'') (js ''image/png'') (js ''Add a cat'')))
          = Inr (imageResponse (js ''QUJD''))"
    by (simp add: goodService_def js_def)
  show ?thesis
    using image_operations_need_inline_data
        [where svc = goodService and response = "imageResponse (js ''QUJD'')",
         THEN conjunct1, rule_format, OF a]
      image_operations_need_inline_data
        [where svc = textOnlyService and response = "textResponse (js ''```jsx <div/> ```'')",
         THEN conjunct2, THEN conjunct1, rule_format, OF b]
      image_operations_need_inline_data
        [where svc = goodService and response = "imageResponse (js ''QUJD'')",
         THEN conjunct2, THEN conjunct2, rule_format, OF c]
    by (simp only: inlineImageData_imageResponse inlineImageData_textResponse option.case simp_thms)
qed

section \<open>The two code generators\<close>

lemma outcome_generateScreenCodeReact:
  "outcome (generateScreenCodeReact svc n d s p q) =
     (case snd (svc (ReactCodeRequest n d s p q)) of
        Inl e \<Rightarrow> Inl (Error (js ''Failed to generate React code for '' @ dq @ n @ dq @ js ''.''))
      | Inr response \<Rightarrow>
          (if length (trim (stripFences (js ''jsx'') (responseText response))) < 50
           then Inl (Error (js ''Failed to generate React code for '' @ dq @ n @ dq @ js ''.''))
           else Inr (reactComponent (removeNonAlnum n)
                       (trim (stripFences (js ''jsx'') (responseText response))))))"
  by (auto simp add: generateScreenCodeReact_def promise_simps Let_def
      split: sum.split option.split)

lemma outcome_generateScreenCodeFlutter:
  "outcome (generateScreenCodeFlutter svc n d s p q) =
     (case snd (svc (FlutterCodeRequest n d s p q)) of
        Inl e \<Rightarrow> Inl (Error (js ''Failed to generate Flutter code for '' @ dq @ n @ dq @ js ''.''))
      | Inr response \<Rightarrow>
          (if length (trim (stripFences (js ''dart'') (responseText response))) < 50
           then Inl (Error (js ''Failed to generate Flutter code for '' @ dq @ n @ dq @ js ''.''))
           else Inr (flutterWidget (trim (stripFences (js ''dart'') (responseText response))))))"
  by (auto simp add: generateScreenCodeFlutter_def promise_simps Let_def
      split: sum.split option.split)

text \<open>
  Claim C6. For both code generators, a response whose text, once the markdown fences
  are stripped and the result trimmed, is empty or shorter than 50 code units is
  rejected, and the failure message names the screen.
\<close>

theorem short_code_is_rejected:
  "(snd (svc (ReactCodeRequest n d s p q)) = Inr response
      \<and> length (trim (stripFences (js ''jsx'') (responseText response))) < 50 \<longrightarrow>
      outcome (generateScreenCodeReact svc n d s p q) =
        Inl (Error (js ''Failed to generate React code for '' @ dq @ n @ dq @ js ''.'')))
   \<and> (snd (svc (FlutterCodeRequest n d s p q)) = Inr response
      \<and> length (trim (stripFences (js ''dart'') (responseText response))) < 50 \<longrightarrow>
      outcome (generateScreenCodeFlutter svc n d s p q) =
        Inl (Error (js ''Failed to generate Flutter code for '' @ dq @ n @ dq @ js ''.'')))"
  by (simp add: outcome_generateScreenCodeReact outcome_generateScreenCodeFlutter)

theorem short_code_is_rejected_witness:
  "length (trim (stripFences (js ''jsx'') (js ''```jsx <div/> ```''))) = 6
   \<and> outcome (generateScreenCodeReact textOnlyService (js ''Home'') (js ''A recipe app'') MODERN (js ''#A78BFA'') (js ''#2DD4BF''))
       = Inl (Error (js ''Failed to generate React code for '' @ dq @ js ''Home'' @ dq @ js ''.''))
   \<and> length (trim (stripFences (js ''dart'') (js ''```jsx <div/> ```''))) = 10
   \<and> outcome (generateScreenCodeFlutter textOnlyService (js ''Home'') (js ''A recipe app'') MODERN (js ''#A78BFA'') (js ''#2DD4BF''))
       = Inl (Error (js ''Failed to generate Flutter code for '' @ dq @ js ''Home'' @ dq @ js ''.''))"
proof -
  have r: "length (trim (stripFences (js ''jsx'') (js ''```jsx <div/> ```''))) = 6"
    by code_simp
  have f: "length (trim (stripFences (js ''dart'') (js ''```jsx <div/> ```''))) = 10"
    by code_simp
  have a: "snd (textOnlyService (ReactCodeRequest (js ''Home'') (js ''A recipe app'') MODERN (js ''#A78BFA'') (js ''#2DD4BF'')))
        = Inr (textResponse (js ''```jsx <div/> ```''))
      \<and> length (trim (stripFences (js ''jsx'') (responseText (textResponse (js ''```jsx <div/> ```''))))) < 50"
    using r by (simp add: textOnlyService_def textResponse_def)
  have b: "snd (textOnlyService (FlutterCodeRequest (js ''Home'') (js ''A recipe app'') MODERN (js ''#A78BFA'') (js ''#2DD4BF'')))
        = Inr (textResponse (js ''```jsx <div/> ```''))
      \<and> length (trim (stripFences (js ''dart'') (responseText (textResponse (js ''```jsx <div/> ```''))))) < 50"
    using f by (simp add: textOnlyService_def textResponse_def)
  show ?thesis
    using short_code_is_rejected
        [where svc = textOnlyService and response = "textResponse (js ''```jsx <div/> ```'')",
         THEN conjunct1, rule_format, OF a]
      short_code_is_rejected
        [where svc = textOnlyService and response = "textResponse (js ''```jsx <div/> ```'')",
         THEN conjunct2, rule_format, OF b] r f
    by simp
qed

text \<open>
  Claim C10. When the base64 image data given to \<open>editImage\<close> has no non-empty segment
  right after its first comma (there is no comma, or nothing stands between the first
  comma and the next one or the end), \<open>editImage\<close> throws
  \<open>Invalid base64 image data provided.\<close> and has issued no request to the model.
\<close>

theorem editImage_rejects_missing_payload:
  assumes "takeWhile (\<lambda>c. c \<noteq> 0x2C) (drop 1 (dropWhile (\<lambda>c. c \<noteq> 0x2C) b)) = []"
  shows "outcome (editImage svc b m e) = Inl (Error (js ''Invalid base64 image data provided.''))
         \<and> requests (editImage svc b m e) = []"
proof (cases "dropWhile (\<lambda>c. c \<noteq> 0x2C) b")
  case Nil
  then show ?thesis
    unfolding editImage_cases by (simp only: list.case promise_simps simp_thms)
next
  case (Cons c rest)
  then have "takeWhile (\<lambda>c. c \<noteq> 0x2C) rest = []"
    using assms by simp
  then show ?thesis
    unfolding editImage_cases using Cons by (simp only: list.case if_True promise_simps simp_thms)
qed

theorem editImage_rejects_missing_payload_witness:
  "takeWhile (\<lambda>c. c \<noteq> 0x2C) (drop 1 (dropWhile (\<lambda>c. c \<noteq> 0x2C) (js ''data:image/png;base64,''))) = []
   \<and> outcome (editImage goodService (js ''data:image/png;base64,'') (js ''image/png'') (js ''Add a cat''))
       = Inl (Error (js ''Invalid base64 image data provided.''))
   \<and> requests (editImage goodService (js ''data:image/png;base64,'') (js ''image/png'') (js ''Add a cat'')) = []"
proof -
  have h: "takeWhile (\<lambda>c. c \<noteq> 0x2C) (drop 1 (dropWhile (\<lambda>c. c \<noteq> 0x2C) (js ''data:image/png;base64,''))) = []"
    by (simp add: js_def)
  show ?thesis
    using editImage_rejects_missing_payload [OF h, of goodService "js ''image/png''" "js ''Add a cat''"] h
    by simp
qed

section \<open>The colour palette\<close>

lemma outcome_generateColorPalette:
  "outcome (generateColorPalette svc JSON_parse baseColor) =
     (case snd (svc (PaletteRequest baseColor)) of
        Inl e \<Rightarrow> Inl (Error (js ''Failed to generate a valid color palette from the AI.''))
      | Inr response \<Rightarrow>
          (case JSON_parse (responseText response) of
             Inl e \<Rightarrow> Inl (Error (js ''Failed to generate a valid color palette from the AI.''))
           | Inr pal \<Rightarrow>
               if isValidHex (primary pal) \<and> isValidHex (secondary pal) \<and> isValidHex (accent pal)
               then Inr pal
               else Inl (Error (js ''Failed to generate a valid color palette from the AI.''))))"
  by (simp add: generateColorPalette_def promise_simps split: sum.split)

lemma isValidHex_iff:
  "isValidHex color \<longleftrightarrow>
     length color = 7 \<and> hd color = 0x23 \<and> (\<forall>c \<in> set (tl color). isHexDigit c)"
  by (cases color) (auto simp: isValidHex_def list_all_iff)

text \<open>
  Claim C5. \<open>generateColorPalette\<close> never returns a malformed palette: when one of the
  fields primary, secondary, accent of the parsed response fails the hex colour test
  (a \<open>#\<close> and six hex digits), the operation throws instead of returning, and every
  palette it returns is the parsed one with all three fields passing that test.
\<close>

theorem palette_is_valid_or_refused:
  "(snd (svc (PaletteRequest baseColor)) = Inr response
      \<and> JSON_parse (responseText response) = Inr pal
      \<and> (\<not> isValidHex (primary pal) \<or> \<not> isValidHex (secondary pal) \<or> \<not> isValidHex (accent pal)) \<longrightarrow>
      outcome (generateColorPalette svc JSON_parse baseColor) =
        Inl (Error (js ''Failed to generate a valid color palette from the AI.'')))
   \<and> (outcome (generateColorPalette svc JSON_parse baseColor) = Inr returned \<longrightarrow>
        isValidHex (primary returned) \<and> isValidHex (secondary returned) \<and> isValidHex (accent returned)
        \<and> (\<forall>field \<in> {primary returned, secondary returned, accent returned}.
              length field = 7 \<and> hd field = 0x23 \<and> (\<forall>c \<in> set (tl field). isHexDigit c))
        \<and> (\<exists>response. snd (svc (PaletteRequest baseColor)) = Inr response
              \<and> JSON_parse (responseText response) = Inr returned))"
proof (intro conjI impI)
  assume "snd (svc (PaletteRequest baseColor)) = Inr response
      \<and> JSON_parse (responseText response) = Inr pal
      \<and> (\<not> isValidHex (primary pal) \<or> \<not> isValidHex (secondary pal) \<or> \<not> isValidHex (accent pal))"
  then show "outcome (generateColorPalette svc JSON_parse baseColor) =
        Inl (Error (js ''Failed to generate a valid color palette from the AI.''))"
    by (auto simp: outcome_generateColorPalette)
next
  assume r: "outcome (generateColorPalette svc JSON_parse baseColor) = Inr returned"
  then obtain response where resp: "snd (svc (PaletteRequest baseColor)) = Inr response"
    by (auto simp: outcome_generateColorPalette split: sum.splits)
  with r have parsed: "JSON_parse (responseText response) = Inr returned"
    by (auto simp: outcome_generateColorPalette split: sum.splits if_splits)
  from r resp parsed have valid:
    "isValidHex (primary returned) \<and> isValidHex (secondary returned) \<and> isValidHex (accent returned)"
    by (auto simp: outcome_generateColorPalette split: if_splits)
  from valid show "isValidHex (primary returned)" "isValidHex (secondary returned)"
    "isValidHex (accent returned)" by simp_all
  from valid show "\<forall>field \<in> {primary returned, secondary returned, accent returned}.
      length field = 7 \<and> hd field = 0x23 \<and> (\<forall>c \<in> set (tl field). isHexDigit c)"
    by (simp add: isValidHex_iff)
  from resp parsed show "\<exists>response. snd (svc (PaletteRequest baseColor)) = Inr response
      \<and> JSON_parse (responseText response) = Inr returned"
    by blast
qed

theorem palette_is_valid_or_refused_witness:
  "\<not> isValidHex (js ''teal'')
   \<and> outcome (generateColorPalette goodService badPalette (js ''#A78BFA''))
       = Inl (Error (js ''Failed to generate a valid color palette from the AI.''))
   \<and> outcome (generateColorPalette goodService goodPalette (js ''#A78BFA''))
       = Inr \<lparr>primary = js ''#A78BFA'', secondary = js ''#2dd4bf'', accent = js ''#F59E0B''\<rparr>
   \<and> isValidHex (js ''#A78BFA'') \<and> isValidHex (js ''#2dd4bf'') \<and> isValidHex (js ''#F59E0B'')"
proof -
  have teal: "\<not> isValidHex (js ''teal'')"
    by (simp add: isValidHex_def js_def)
  have a: "snd (goodService (PaletteRequest (js ''#A78BFA''))) = Inr (textResponse sampleCode)
      \<and> badPalette (responseText (textResponse sampleCode))
          = Inr \<lparr>primary = js ''#A78BFA'', secondary = js ''teal'', accent = js ''#F59E0B''\<rparr>
      \<and> (\<not> isValidHex (primary \<lparr>primary = js ''#A78BFA'', secondary = js ''teal'', accent = js ''#F59E0B''\<rparr>)
         \<or> \<not> isValidHex (secondary \<lparr>primary = js ''#A78BFA'', secondary = js ''teal'', accent = js ''#F59E0B''\<rparr>)
         \<or> \<not> isValidHex (accent \<lparr>primary = js ''#A78BFA'', secondary = js ''teal'', accent = js ''#F59E0B''\<rparr>))"
    using teal by (simp add: goodService_def badPalette_def)
  have b: "outcome (generateColorPalette goodService goodPalette (js ''#A78BFA''))
      = Inr \<lparr>primary = js ''#A78BFA'', secondary = js ''#2dd4bf'', accent = js ''#F59E0B''\<rparr>"
    by (simp add: outcome_generateColorPalette goodService_def goodPalette_def isValidHex_def
        isHexDigit_def js_def)
  show ?thesis
    using teal b
      palette_is_valid_or_refused
        [where svc = goodService and JSON_parse = badPalette
           and response = "textResponse sampleCode", THEN conjunct1, rule_format, OF a]
      palette_is_valid_or_refused
        [where svc = goodService and JSON_parse = goodPalette, THEN conjunct2, rule_format, OF b]
    by simp
qed

section \<open>Extracting the screen names\<close>

lemma outcome_extractScreenNames:
  "outcome (extractScreenNames svc JSON_parse d) =
     (case snd (svc (ScreenNamesRequest d)) of
        Inl e \<Rightarrow> Inl (Error (js ''Failed to parse app description. Please try rephrasing your idea.''))
      | Inr response \<Rightarrow>
          (case JSON_parse (responseText response) of
             Inl e \<Rightarrow> Inl (Error (js ''Failed to parse app description. Please try rephrasing your idea.''))
           | Inr jsonResponse \<Rightarrow>
               Inr (case screens jsonResponse of None \<Rightarrow> [] | Some names \<Rightarrow> names)))"
  by (simp add: extractScreenNames_def promise_simps split: sum.split)

lemma requests_extractScreenNames:
  "requests (extractScreenNames svc JSON_parse d) = [ScreenNamesRequest d]"
  by (simp add: extractScreenNames_def promise_simps split: sum.split)

text \<open>
  Claim C4. When no screen name is extracted from the prompt (the extraction returns the
  empty list, as it does for a response that parses as JSON but has no \<open>screens\<close>
  array), \<open>generateAppScreens\<close> throws the guidance message and the only request it has
  issued is the extraction itself: no image or code request is made.
\<close>

theorem no_screen_names_fails_fast:
  "(outcome (extractScreenNames (ai 0) JSON_parse d) = Inr [] \<longrightarrow>
      outcome (generateAppScreens ai JSON_parse d style p q) = Inl (Error noScreensMessage)
      \<and> requests (generateAppScreens ai JSON_parse d style p q) = [ScreenNamesRequest d])
   \<and> (snd (ai 0 (ScreenNamesRequest d)) = Inr response
        \<and> JSON_parse (responseText response) = Inr jsonResponse
        \<and> screens jsonResponse = None \<longrightarrow>
      outcome (generateAppScreens ai JSON_parse d style p q) = Inl (Error noScreensMessage)
      \<and> requests (generateAppScreens ai JSON_parse d style p q) = [ScreenNamesRequest d])"
proof -
  have main: "outcome (generateAppScreens ai JSON_parse d style p q) = Inl (Error noScreensMessage)
      \<and> requests (generateAppScreens ai JSON_parse d style p q) = [ScreenNamesRequest d]"
    if "outcome (extractScreenNames (ai 0) JSON_parse d) = Inr []"
    using that by (simp add: generateAppScreens_def promise_simps requests_extractScreenNames)
  have "outcome (extractScreenNames (ai 0) JSON_parse d) = Inr []"
    if "snd (ai 0 (ScreenNamesRequest d)) = Inr response
        \<and> JSON_parse (responseText response) = Inr jsonResponse
        \<and> screens jsonResponse = None"
    using that by (simp add: outcome_extractScreenNames)
  with main show ?thesis by blast
qed

theorem no_screen_names_fails_fast_witness:
  "outcome (extractScreenNames (allGood 0) noScreensKey (js ''A recipe app'')) = Inr []
   \<and> outcome (generateAppScreens allGood noScreensKey (js ''A recipe app'') MODERN (js ''#A78BFA'') (js ''#2DD4BF''))
       = Inl (Error noScreensMessage)
   \<and> requests (generateAppScreens allGood noScreensKey (js ''A recipe app'') MODERN (js ''#A78BFA'') (js ''#2DD4BF''))
       = [ScreenNamesRequest (js ''A recipe app'')]"
proof -
  have b: "snd (allGood 0 (ScreenNamesRequest (js ''A recipe app''))) = Inr (textResponse sampleCode)
      \<and> noScreensKey (responseText (textResponse sampleCode)) = Inr \<lparr>screens = None\<rparr>
      \<and> screens \<lparr>screens = None\<rparr> = None"
    by (simp add: allGood_def goodService_def noScreensKey_def)
  then have a: "outcome (extractScreenNames (allGood 0) noScreensKey (js ''A recipe app'')) = Inr []"
    by (simp add: outcome_extractScreenNames)
  show ?thesis
    using a
      no_screen_names_fails_fast
        [where ai = allGood and JSON_parse = noScreensKey, THEN conjunct1, rule_format, OF a]
      no_screen_names_fails_fast
        [where ai = allGood and JSON_parse = noScreensKey
           and response = "textResponse sampleCode", THEN conjunct2, rule_format, OF b]
    by simp
qed

section \<open>The generated code\<close>

subsection \<open>Stripping the fences\<close>

lemma fence_units: "js ''```'' = [0x60, 0x60, 0x60]" "js ''``'' = [0x60, 0x60]" "fence = [0x60, 0x60, 0x60]"
  by (simp_all add: js_def fence_def)

lemma prefix_fence_iff: "prefix [a, b, c] xs \<longleftrightarrow> take 3 xs = [a, b, c]"
  by (cases xs; cases "tl xs"; cases "tl (tl xs)") (auto simp: prefix_Cons)

lemma kept_before_fence:
  "prefix (js ''```'') (c # kept @ js ''``'') \<longleftrightarrow> prefix (js ''```'') (c # kept @ js ''```'' @ others)"
  unfolding fence_units
  by (cases kept; cases "tl kept") (auto simp: prefix_Cons)

lemma fencesRemoved_keep:
  assumes "fencesRemoved lang cs r" and "\<not> prefix (js ''```'') (c # cs)"
  shows "fencesRemoved lang (c # cs) (c # r)"
  using assms
proof (cases rule: fencesRemoved.cases)
  case no_fence
  then show ?thesis
    using assms(2) by (auto intro!: fencesRemoved.no_fence simp: sublist_Cons_right)
next
  case (tagged_fence kept following result)
  have "\<not> sublist (js ''```'') ((c # kept) @ js ''``'')"
    using tagged_fence(3) assms(2) kept_before_fence [of c kept "lang @ following"]
    by (simp add: sublist_Cons_right tagged_fence(1))
  from fencesRemoved.tagged_fence [OF this tagged_fence(4)] show ?thesis
    by (simp add: tagged_fence)
next
  case (bare_fence kept following result)
  have "\<not> sublist (js ''```'') ((c # kept) @ js ''``'')"
    using bare_fence(3) assms(2) kept_before_fence [of c kept following]
    by (simp add: sublist_Cons_right bare_fence(1))
  from fencesRemoved.bare_fence [OF this bare_fence(4,5)] show ?thesis
    by (simp add: bare_fence)
qed

lemma short_no_fence: "\<not> sublist (js ''```'') ([] @ js ''``'')"
  by (simp add: fence_units sublist_Cons_right prefix_Cons)

lemma stripFences_removes: "fencesRemoved lang t (stripFences lang t)"
proof (induction lang t rule: stripFences.induct)
  case (1 lang)
  show ?case by (simp add: fencesRemoved.no_fence fence_units)
next
  case (2 lang c cs)
  show ?case
  proof (cases "prefix (fence @ lang) (c # cs)")
    case True
    then obtain following where f: "c # cs = fence @ lang @ following"
      by (auto simp: prefix_def)
    then have d: "drop (length (fence @ lang)) (c # cs) = following"
      by simp
    from 2(1) [OF True] have "fencesRemoved lang following (stripFences lang following)"
      by (simp only: d)
    from fencesRemoved.tagged_fence [OF short_no_fence this]
    have "fencesRemoved lang (c # cs) (stripFences lang following)"
      by (simp add: f fence_def)
    then show ?thesis
      using True d by (simp del: drop_append)
  next
    case False
    show ?thesis
    proof (cases "prefix fence (c # cs)")
      case True
      then obtain following where f: "c # cs = fence @ following"
        by (auto simp: prefix_def)
      then have d: "drop (length fence) (c # cs) = following"
        by simp
      have np: "\<not> prefix lang following"
        using False f by simp
      from 2(2) [OF False True] have "fencesRemoved lang following (stripFences lang following)"
        by (simp only: d)
      from fencesRemoved.bare_fence [OF short_no_fence np this]
      have "fencesRemoved lang (c # cs) (stripFences lang following)"
        by (simp add: f fence_def)
      then show ?thesis
        using False True d by (simp del: drop_append)
    next
      case nf: False
      from 2(3) [OF False nf] have "fencesRemoved lang cs (stripFences lang cs)" .
      then have "fencesRemoved lang (c # cs) (c # stripFences lang cs)"
        using nf by (intro fencesRemoved_keep) (simp_all add: fence_def)
      then show ?thesis
        using False nf by simp
    qed
  qed
qed

lemma no_fence_across:
  "\<not> sublist [b, b, b] (kept @ [b, b]) \<Longrightarrow> \<not> sublist [b, b, b] r \<Longrightarrow> \<not> sublist [b, b, b] (kept @ r)"
proof (induction kept)
  case Nil
  then show ?case by simp
next
  case (Cons c k)
  then have "\<not> sublist [b, b, b] (k @ r)"
    by (simp add: sublist_Cons_right)
  moreover have "\<not> prefix [b, b, b] (c # k @ r)"
    using Cons.prems
    by (cases k; cases "tl k"; cases r; cases "tl r") (auto simp: sublist_Cons_right prefix_Cons)
  ultimately show ?case
    by (simp add: sublist_Cons_right)
qed

lemma fencesRemoved_no_fence:
  "fencesRemoved lang t r \<Longrightarrow> \<not> sublist (js ''```'') r"
proof (induction rule: fencesRemoved.induct)
  case (no_fence rest)
  then show ?case .
next
  case (tagged_fence kept following result)
  then show ?case
    using no_fence_across [of "0x60" kept result] by (simp add: fence_units)
next
  case (bare_fence kept following result)
  then show ?case
    using no_fence_across [of "0x60" kept result] by (simp add: fence_units)
qed

lemma stripFences_no_fence:
  "\<not> sublist fence t \<Longrightarrow> stripFences lang t = t"
proof (induction t)
  case Nil
  then show ?case by simp
next
  case (Cons c cs)
  then have a: "\<not> prefix fence (c # cs)" and b: "\<not> sublist fence cs"
    by (simp_all add: sublist_Cons_right)
  from a have "\<not> prefix (fence @ lang) (c # cs)"
    using append_prefixD by blast
  with a b Cons.IH show ?case by simp
qed

lemma stripFences_kept:
  assumes "\<not> sublist fence (kept @ js ''``'')" and "prefix fence following"
  shows "stripFences lang (kept @ following) = kept @ stripFences lang following"
  using assms(1)
proof (induction kept)
  case Nil
  then show ?case by simp
next
  case (Cons c k)
  from assms(2) obtain others where f: "following = js ''```'' @ others"
    by (auto simp: prefix_def fence_def)
  from Cons.prems have a: "\<not> prefix fence (c # k @ js ''``'')" and b: "\<not> sublist fence (k @ js ''``'')"
    by (simp_all add: sublist_Cons_right)
  from a have a': "\<not> prefix fence (c # k @ following)"
    using kept_before_fence [of c k others] by (simp add: f fence_def)
  then have "\<not> prefix (fence @ lang) (c # k @ following)"
    using append_prefixD by blast
  with a' Cons.IH [OF b] show ?case by simp
qed

lemma fencesRemoved_determines:
  "fencesRemoved lang t r \<Longrightarrow> r = stripFences lang t"
proof (induction rule: fencesRemoved.induct)
  case (no_fence rest)
  then show ?case by (simp add: stripFences_no_fence fence_def)
next
  case (tagged_fence kept following result)
  have "stripFences lang (fence @ lang @ following) = stripFences lang following"
    by (simp add: fence_units)
  then have "stripFences lang (kept @ fence @ lang @ following) = kept @ stripFences lang following"
    using stripFences_kept [of kept "fence @ lang @ following" lang] tagged_fence(1)
    by (simp add: fence_def)
  then show ?case
    using tagged_fence(3) by (simp add: fence_def)
next
  case (bare_fence kept following result)
  have "\<not> prefix (fence @ lang) (fence @ following)"
    using bare_fence(2) by simp
  then have "stripFences lang (fence @ following) = stripFences lang following"
    by (simp add: fence_units)
  then have "stripFences lang (kept @ fence @ following) = kept @ stripFences lang following"
    using stripFences_kept [of kept "fence @ following" lang] bare_fence(1)
    by (simp add: fence_def)
  then show ?case
    using bare_fence(4) by (simp add: fence_def)
qed

lemma trim_trimmedTo: "trimmedTo s (trim s)"
proof -
  define lead where "lead = takeWhile isWhiteSpace s"
  define mid where "mid = dropWhile isWhiteSpace s"
  define trail where "trail = rev (takeWhile isWhiteSpace (rev mid))"
  have t: "trim s = rev (dropWhile isWhiteSpace (rev mid))"
    by (simp add: trim_def mid_def)
  have "rev (takeWhile isWhiteSpace (rev mid) @ dropWhile isWhiteSpace (rev mid)) = rev (rev mid)"
    by (simp only: takeWhile_dropWhile_id)
  then have "rev (dropWhile isWhiteSpace (rev mid)) @ rev (takeWhile isWhiteSpace (rev mid)) = mid"
    by (simp only: rev_append rev_rev_ident)
  then have m: "mid = trim s @ trail"
    by (simp only: t trail_def)
  have s: "s = lead @ trim s @ trail"
    using m takeWhile_dropWhile_id [of isWhiteSpace s] by (simp add: lead_def mid_def)
  have l: "list_all isWhiteSpace lead"
    by (auto simp: lead_def list_all_iff dest: set_takeWhileD)
  have r: "list_all isWhiteSpace trail"
    by (auto simp: trail_def list_all_iff dest: set_takeWhileD)
  have e: "\<not> isWhiteSpace (hd (trim s)) \<and> \<not> isWhiteSpace (last (trim s))" if ne: "trim s \<noteq> []"
  proof
    from ne have "mid \<noteq> []" using m by auto
    then have "\<not> isWhiteSpace (hd mid)"
      unfolding mid_def by (rule hd_dropWhile)
    moreover have "hd mid = hd (trim s)"
      using m ne by (metis hd_append2)
    ultimately show "\<not> isWhiteSpace (hd (trim s))" by simp
    from ne have d: "dropWhile isWhiteSpace (rev mid) \<noteq> []"
      by (simp add: t)
    then have "\<not> isWhiteSpace (hd (dropWhile isWhiteSpace (rev mid)))"
      by (rule hd_dropWhile)
    then show "\<not> isWhiteSpace (last (trim s))"
      using d by (simp add: t last_rev)
  qed
  show ?thesis
    unfolding trimmedTo_def
    by (rule exI [of _ lead], rule exI [of _ trail]) (use s l r e in auto)
qed

lemma indent_no_line_feed:
  "0x0A \<notin> set s \<Longrightarrow> concat (map (\<lambda>c. if c = 0x0A then 0x0A # js ''    '' else [c]) s) = s"
  by (induction s) auto

lemma indent_append:
  "concat (map (\<lambda>c. if c = 0x0A then 0x0A # js ''    '' else [c]) (a @ (0x0A :: jschar) # b))
     = concat (map (\<lambda>c. if c = 0x0A then 0x0A # js ''    '' else [c]) a) @ 0x0A # js ''    ''
       @ concat (map (\<lambda>c. if c = 0x0A then 0x0A # js ''    '' else [c]) b)"
  by simp

subsection \<open>Indenting the lines\<close>

lemma split_last_segment:
  "dropWhile (\<lambda>c. c \<noteq> sep) s = [] \<Longrightarrow> split sep s = [takeWhile (\<lambda>c. c \<noteq> sep) s]"
  by (subst split.simps) (simp only: list.case)

lemma split_next_segment:
  "dropWhile (\<lambda>c. c \<noteq> sep) s = c # rest \<Longrightarrow>
     split sep s = takeWhile (\<lambda>c. c \<noteq> sep) s # split sep rest"
  by (subst split.simps) (simp only: list.case)

lemma split_no_sep:
  assumes "sep \<notin> set s"
  shows "split sep s = [s]"
proof -
  have "dropWhile (\<lambda>c. c \<noteq> sep) s = []"
    using assms by auto
  then have "split sep s = [takeWhile (\<lambda>c. c \<noteq> sep) s]"
    by (rule split_last_segment)
  then show ?thesis
    using assms by (simp add: takeWhile_no_sep)
qed

lemma split_upto_sep:
  assumes "sep \<notin> set xs"
  shows "split sep (xs @ sep # ys) = xs # split sep ys"
proof -
  have "dropWhile (\<lambda>c. c \<noteq> sep) (xs @ sep # ys) = sep # ys"
    using assms by (rule dropWhile_upto_sep)
  then have "split sep (xs @ sep # ys) = takeWhile (\<lambda>c. c \<noteq> sep) (xs @ sep # ys) # split sep ys"
    by (rule split_next_segment)
  then show ?thesis
    using assms by (simp add: takeWhile_upto_sep)
qed

lemma split_lines:
  "split sep s \<noteq> [] \<and> (\<forall>l \<in> set (split sep s). sep \<notin> set l)"
proof (induction sep s rule: split.induct)
  case (1 sep s)
  have t: "sep \<notin> set (takeWhile (\<lambda>c. c \<noteq> sep) s)"
    by (auto dest: set_takeWhileD)
  show ?case
  proof (cases "dropWhile (\<lambda>c. c \<noteq> sep) s")
    case Nil
    from split_last_segment [OF Nil] t show ?thesis by simp
  next
    case (Cons c rest)
    from split_next_segment [OF Cons] t 1 [OF Cons] show ?thesis by simp
  qed
qed

lemma indented_lines:
  "join nl (map (\<lambda>line. js ''    '' @ line) (split 0x0A rawCode)) = indentedLines rawCode"
proof (induction "0x0A :: jschar" rawCode rule: split.induct)
  case (1 s)
  show ?case
  proof (cases "dropWhile (\<lambda>c. c \<noteq> 0x0A) s")
    case Nil
    then have "0x0A \<notin> set s" by auto
    then show ?thesis
      by (simp add: split_no_sep indentedLines_def indent_no_line_feed)
  next
    case (Cons c rest)
    then have c: "c = 0x0A"
      using hd_dropWhile [of "\<lambda>c. c \<noteq> 0x0A" s] by simp
    define first where "first = takeWhile (\<lambda>c. c \<noteq> 0x0A) s"
    have nolf: "0x0A \<notin> set first"
      by (auto simp: first_def dest: set_takeWhileD)
    have s: "s = first @ 0x0A # rest"
      using takeWhile_dropWhile_id [of "\<lambda>c. c \<noteq> 0x0A" s] Cons c by (simp add: first_def)
    obtain l ls where ls: "split 0x0A rest = l # ls"
      using split_lines [of "0x0A" rest] by (cases "split 0x0A rest") auto
    have "join nl (map (\<lambda>line. js ''    '' @ line) (split 0x0A s))
        = js ''    '' @ first @ nl @ join nl (map (\<lambda>line. js ''    '' @ line) (split 0x0A rest))"
      using split_next_segment [OF Cons] ls by (simp add: first_def)
    also have "\<dots> = js ''    '' @ first @ nl @ indentedLines rest"
      using 1 [OF Cons] by simp
    also have "\<dots> = indentedLines (first @ 0x0A # rest)"
      by (simp add: indentedLines_def indent_no_line_feed [OF nolf] nl_def)
    finally show ?thesis
      using s by simp
  qed
qed

subsection \<open>What the two generators return\<close>

lemma raw_code_of_text:
  "fencesRemoved lang t (stripFences lang t)
   \<and> \<not> sublist (js ''```'') (stripFences lang t)
   \<and> trimmedTo (stripFences lang t) (trim (stripFences lang t))"
  using stripFences_removes [of lang t] fencesRemoved_no_fence [of lang t "stripFences lang t"]
    trim_trimmedTo [of "stripFences lang t"]
  by simp

text \<open>
  Claim C9. Every code string that is returned carries an import preamble added by the
  program, around the raw code: the text of the model with its fences removed (no fence
  is left in it) and then trimmed, at least 50 code units long. The React code starts
  with \<open>import React from 'react';\<close> and wraps the raw code, each of its lines indented
  by four spaces, in a component named by the screen name without its non-alphanumeric
  characters; the Flutter code starts with \<open>import 'package:flutter/material.dart';\<close>,
  followed by the raw code.
\<close>

theorem returned_code_has_preamble:
  "(outcome (generateScreenCodeReact svc n d s p q) = Inr returned \<longrightarrow>
      (\<exists>response stripped rawCode.
         snd (svc (ReactCodeRequest n d s p q)) = Inr response
         \<and> fencesRemoved (js ''jsx'') (responseText response) stripped
         \<and> \<not> sublist (js ''```'') stripped
         \<and> trimmedTo stripped rawCode
         \<and> 50 \<le> length rawCode
         \<and> returned =
             js ''import React from '' @ sq @ js ''react'' @ sq @ js '';'' @ nl
             @ nl
             @ js ''const '' @ filter isAlnum n @ js '' = () => {'' @ nl
             @ js ''  return ('' @ nl
             @ indentedLines rawCode @ nl
             @ js ''  );'' @ nl
             @ js ''};'' @ nl
             @ nl
             @ js ''export default '' @ filter isAlnum n @ js '';'' @ nl))
   \<and> (outcome (generateScreenCodeFlutter svc n d s p q) = Inr returned \<longrightarrow>
      (\<exists>response stripped rawCode.
         snd (svc (FlutterCodeRequest n d s p q)) = Inr response
         \<and> fencesRemoved (js ''dart'') (responseText response) stripped
         \<and> \<not> sublist (js ''```'') stripped
         \<and> trimmedTo stripped rawCode
         \<and> 50 \<le> length rawCode
         \<and> returned =
             js ''import '' @ sq @ js ''package:flutter/material.dart'' @ sq @ js '';'' @ nl
             @ nl
             @ rawCode @ nl))"
proof (intro conjI impI)
  assume r: "outcome (generateScreenCodeReact svc n d s p q) = Inr returned"
  then obtain response where resp: "snd (svc (ReactCodeRequest n d s p q)) = Inr response"
    by (auto simp: outcome_generateScreenCodeReact split: sum.splits)
  define stripped where "stripped = stripFences (js ''jsx'') (responseText response)"
  define rawCode where "rawCode = trim stripped"
  from r resp have long: "50 \<le> length rawCode"
    and ret: "returned = reactComponent (removeNonAlnum n) rawCode"
    by (auto simp: outcome_generateScreenCodeReact rawCode_def stripped_def split: if_splits)
  from ret have template: "returned =
             js ''import React from '' @ sq @ js ''react'' @ sq @ js '';'' @ nl
             @ nl
             @ js ''const '' @ filter isAlnum n @ js '' = () => {'' @ nl
             @ js ''  return ('' @ nl
             @ indentedLines rawCode @ nl
             @ js ''  );'' @ nl
             @ js ''};'' @ nl
             @ nl
             @ js ''export default '' @ filter isAlnum n @ js '';'' @ nl"
    by (simp add: reactComponent_def removeNonAlnum_def indented_lines)
  note raw = raw_code_of_text [of "js ''jsx''" "responseText response", folded stripped_def rawCode_def]
  show "\<exists>response stripped rawCode.
         snd (svc (ReactCodeRequest n d s p q)) = Inr response
         \<and> fencesRemoved (js ''jsx'') (responseText response) stripped
         \<and> \<not> sublist (js ''```'') stripped
         \<and> trimmedTo stripped rawCode
         \<and> 50 \<le> length rawCode
         \<and> returned =
             js ''import React from '' @ sq @ js ''react'' @ sq @ js '';'' @ nl
             @ nl
             @ js ''const '' @ filter isAlnum n @ js '' = () => {'' @ nl
             @ js ''  return ('' @ nl
             @ indentedLines rawCode @ nl
             @ js ''  );'' @ nl
             @ js ''};'' @ nl
             @ nl
             @ js ''export default '' @ filter isAlnum n @ js '';'' @ nl"
    by (rule exI [of _ response], rule exI [of _ stripped], rule exI [of _ rawCode])
       (intro conjI resp raw [THEN conjunct1] raw [THEN conjunct2, THEN conjunct1]
          raw [THEN conjunct2, THEN conjunct2] long template)
next
  assume r: "outcome (generateScreenCodeFlutter svc n d s p q) = Inr returned"
  then obtain response where resp: "snd (svc (FlutterCodeRequest n d s p q)) = Inr response"
    by (auto simp: outcome_generateScreenCodeFlutter split: sum.splits)
  define stripped where "stripped = stripFences (js ''dart'') (responseText response)"
  define rawCode where "rawCode = trim stripped"
  from r resp have long: "50 \<le> length rawCode"
    and ret: "returned = flutterWidget rawCode"
    by (auto simp: outcome_generateScreenCodeFlutter rawCode_def stripped_def split: if_splits)
  from ret have template: "returned =
             js ''import '' @ sq @ js ''package:flutter/material.dart'' @ sq @ js '';'' @ nl
             @ nl
             @ rawCode @ nl"
    by (simp add: flutterWidget_def)
  note raw = raw_code_of_text [of "js ''dart''" "responseText response", folded stripped_def rawCode_def]
  show "\<exists>response stripped rawCode.
         snd (svc (FlutterCodeRequest n d s p q)) = Inr response
         \<and> fencesRemoved (js ''dart'') (responseText response) stripped
         \<and> \<not> sublist (js ''```'') stripped
         \<and> trimmedTo stripped rawCode
         \<and> 50 \<le> length rawCode
         \<and> returned =
             js ''import '' @ sq @ js ''package:flutter/material.dart'' @ sq @ js '';'' @ nl
             @ nl
             @ rawCode @ nl"
    by (rule exI [of _ response], rule exI [of _ stripped], rule exI [of _ rawCode])
       (intro conjI resp raw [THEN conjunct1] raw [THEN conjunct2, THEN conjunct1]
          raw [THEN conjunct2, THEN conjunct2] long template)
qed

lemma sampleCode_long:
  "length (trim (stripFences (js ''jsx'') sampleCode)) = 74"
  "length (trim (stripFences (js ''dart'') sampleCode)) = 78"
  by code_simp+

lemma goodService_code:
  "outcome (generateScreenCodeReact goodService n d s p q)
     = Inr (reactComponent (removeNonAlnum n) (trim (stripFences (js ''jsx'') sampleCode)))"
  "outcome (generateScreenCodeFlutter goodService n d s p q)
     = Inr (flutterWidget (trim (stripFences (js ''dart'') sampleCode)))"
  by (simp_all add: outcome_generateScreenCodeReact outcome_generateScreenCodeFlutter
      goodService_def textResponse_def sampleCode_long)

lemma sampleCode_stripped:
  "stripFences (js ''jsx'') sampleCode =
     nl @ js ''<div className=x>'' @ nl
     @ js ''  <p>0123456789012345678901234567890123456789</p>'' @ nl
     @ js ''</div>'' @ nl"
  by code_simp

lemma sampleCode_trimmed:
  "trim (nl @ js ''<div className=x>'' @ nl
         @ js ''  <p>0123456789012345678901234567890123456789</p>'' @ nl
         @ js ''</div>'' @ nl) =
     js ''<div className=x>'' @ nl
     @ js ''  <p>0123456789012345678901234567890123456789</p>'' @ nl
     @ js ''</div>''"
  by code_simp

lemma sampleCode_component:
  "reactComponent (removeNonAlnum (js ''Log in!'')) (trim (stripFences (js ''jsx'') sampleCode)) =
     js ''import React from '' @ sq @ js ''react'' @ sq @ js '';'' @ nl
     @ nl
     @ js ''const Login = () => {'' @ nl
     @ js ''  return ('' @ nl
     @ js ''    <div className=x>'' @ nl
     @ js ''      <p>0123456789012345678901234567890123456789</p>'' @ nl
     @ js ''    </div>'' @ nl
     @ js ''  );'' @ nl
     @ js ''};'' @ nl
     @ nl
     @ js ''export default Login;'' @ nl"
  by code_simp

lemma sampleDart_stripped:
  "stripFences (js ''dart'') sampleDart =
     nl @ js ''class HomeScreen extends StatelessWidget {'' @ nl
     @ js ''  const HomeScreen({super.key});'' @ nl
     @ js ''}'' @ nl"
  by code_simp

lemma sampleDart_widget:
  "outcome (generateScreenCodeFlutter dartService (js ''Home'') (js ''A recipe app'') MODERN
              (js ''#A78BFA'') (js ''#2DD4BF'')) =
     Inr (js ''import '' @ sq @ js ''package:flutter/material.dart'' @ sq @ js '';'' @ nl
          @ nl
          @ js ''class HomeScreen extends StatelessWidget {'' @ nl
          @ js ''  const HomeScreen({super.key});'' @ nl
          @ js ''}'' @ nl)"
proof -
  have "trim (stripFences (js ''dart'') sampleDart) =
      js ''class HomeScreen extends StatelessWidget {'' @ nl
      @ js ''  const HomeScreen({super.key});'' @ nl
      @ js ''}''"
    by code_simp
  moreover have "length (js ''class HomeScreen extends StatelessWidget {'' @ nl
      @ js ''  const HomeScreen({super.key});'' @ nl
      @ js ''}'') = 77"
    by (simp add: js_def nl_def)
  ultimately show ?thesis
    by (simp add: outcome_generateScreenCodeFlutter dartService_def textResponse_def
        flutterWidget_def)
qed

theorem returned_code_has_preamble_witness:
  "outcome (generateScreenCodeReact goodService (js ''Log in!'') (js ''A recipe app'') MODERN
              (js ''#A78BFA'') (js ''#2DD4BF'')) =
     Inr (js ''import React from '' @ sq @ js ''react'' @ sq @ js '';'' @ nl
          @ nl
          @ js ''const Login = () => {'' @ nl
          @ js ''  return ('' @ nl
          @ js ''    <div className=x>'' @ nl
          @ js ''      <p>0123456789012345678901234567890123456789</p>'' @ nl
          @ js ''    </div>'' @ nl
          @ js ''  );'' @ nl
          @ js ''};'' @ nl
          @ nl
          @ js ''export default Login;'' @ nl)
   \<and> fencesRemoved (js ''jsx'') sampleCode
         (nl @ js ''<div className=x>'' @ nl
          @ js ''  <p>0123456789012345678901234567890123456789</p>'' @ nl
          @ js ''</div>'' @ nl)
   \<and> trimmedTo
         (nl @ js ''<div className=x>'' @ nl
          @ js ''  <p>0123456789012345678901234567890123456789</p>'' @ nl
          @ js ''</div>'' @ nl)
         (js ''<div className=x>'' @ nl
          @ js ''  <p>0123456789012345678901234567890123456789</p>'' @ nl
          @ js ''</div>'')
   \<and> indentedLines
         (js ''<div className=x>'' @ nl
          @ js ''  <p>0123456789012345678901234567890123456789</p>'' @ nl
          @ js ''</div>'') =
       js ''    <div className=x>'' @ nl
       @ js ''      <p>0123456789012345678901234567890123456789</p>'' @ nl
       @ js ''    </div>''
   \<and> (\<exists>response stripped rawCode.
         snd (goodService (ReactCodeRequest (js ''Log in!'') (js ''A recipe app'') MODERN
                (js ''#A78BFA'') (js ''#2DD4BF''))) = Inr response
         \<and> fencesRemoved (js ''jsx'') (responseText response) stripped
         \<and> \<not> sublist (js ''```'') stripped
         \<and> trimmedTo stripped rawCode
         \<and> 50 \<le> length rawCode
         \<and> js ''import React from '' @ sq @ js ''react'' @ sq @ js '';'' @ nl
             @ nl
             @ js ''const Login = () => {'' @ nl
             @ js ''  return ('' @ nl
             @ js ''    <div className=x>'' @ nl
             @ js ''      <p>0123456789012345678901234567890123456789</p>'' @ nl
             @ js ''    </div>'' @ nl
             @ js ''  );'' @ nl
             @ js ''};'' @ nl
             @ nl
             @ js ''export default Login;'' @ nl =
             js ''import React from '' @ sq @ js ''react'' @ sq @ js '';'' @ nl
             @ nl
             @ js ''const '' @ filter isAlnum (js ''Log in!'') @ js '' = () => {'' @ nl
             @ js ''  return ('' @ nl
             @ indentedLines rawCode @ nl
             @ js ''  );'' @ nl
             @ js ''};'' @ nl
             @ nl
             @ js ''export default '' @ filter isAlnum (js ''Log in!'') @ js '';'' @ nl)
   \<and> outcome (generateScreenCodeFlutter dartService (js ''Home'') (js ''A recipe app'') MODERN
              (js ''#A78BFA'') (js ''#2DD4BF'')) =
     Inr (js ''import '' @ sq @ js ''package:flutter/material.dart'' @ sq @ js '';'' @ nl
          @ nl
          @ js ''class HomeScreen extends StatelessWidget {'' @ nl
          @ js ''  const HomeScreen({super.key});'' @ nl
          @ js ''}'' @ nl)
   \<and> fencesRemoved (js ''dart'') sampleDart
         (nl @ js ''class HomeScreen extends StatelessWidget {'' @ nl
          @ js ''  const HomeScreen({super.key});'' @ nl
          @ js ''}'' @ nl)
   \<and> (\<exists>response stripped rawCode.
         snd (dartService (FlutterCodeRequest (js ''Home'') (js ''A recipe app'') MODERN
                (js ''#A78BFA'') (js ''#2DD4BF''))) = Inr response
         \<and> fencesRemoved (js ''dart'') (responseText response) stripped
         \<and> \<not> sublist (js ''```'') stripped
         \<and> trimmedTo stripped rawCode
         \<and> 50 \<le> length rawCode
         \<and> js ''import '' @ sq @ js ''package:flutter/material.dart'' @ sq @ js '';'' @ nl
             @ nl
             @ js ''class HomeScreen extends StatelessWidget {'' @ nl
             @ js ''  const HomeScreen({super.key});'' @ nl
             @ js ''}'' @ nl =
             js ''import '' @ sq @ js ''package:flutter/material.dart'' @ sq @ js '';'' @ nl
             @ nl
             @ rawCode @ nl)"
proof -
  have a: "outcome (generateScreenCodeReact goodService (js ''Log in!'') (js ''A recipe app'') MODERN
              (js ''#A78BFA'') (js ''#2DD4BF'')) =
     Inr (js ''import React from '' @ sq @ js ''react'' @ sq @ js '';'' @ nl
          @ nl
          @ js ''const Login = () => {'' @ nl
          @ js ''  return ('' @ nl
          @ js ''    <div className=x>'' @ nl
          @ js ''      <p>0123456789012345678901234567890123456789</p>'' @ nl
          @ js ''    </div>'' @ nl
          @ js ''  );'' @ nl
          @ js ''};'' @ nl
          @ nl
          @ js ''export default Login;'' @ nl)"
    by (simp only: goodService_code(1) sampleCode_component)
  have b: "fencesRemoved (js ''jsx'') sampleCode
         (nl @ js ''<div className=x>'' @ nl
          @ js ''  <p>0123456789012345678901234567890123456789</p>'' @ nl
          @ js ''</div>'' @ nl)"
    using stripFences_removes [of "js ''jsx''" sampleCode] by (simp only: sampleCode_stripped)
  have c: "trimmedTo
         (nl @ js ''<div className=x>'' @ nl
          @ js ''  <p>0123456789012345678901234567890123456789</p>'' @ nl
          @ js ''</div>'' @ nl)
         (js ''<div className=x>'' @ nl
          @ js ''  <p>0123456789012345678901234567890123456789</p>'' @ nl
          @ js ''</div>'')"
    using trim_trimmedTo [of "nl @ js ''<div className=x>'' @ nl
          @ js ''  <p>0123456789012345678901234567890123456789</p>'' @ nl
          @ js ''</div>'' @ nl"]
    by (simp only: sampleCode_trimmed)
  have d: "indentedLines
         (js ''<div className=x>'' @ nl
          @ js ''  <p>0123456789012345678901234567890123456789</p>'' @ nl
          @ js ''</div>'') =
       js ''    <div className=x>'' @ nl
       @ js ''      <p>0123456789012345678901234567890123456789</p>'' @ nl
       @ js ''    </div>''"
    by (simp add: indentedLines_def js_def nl_def)
  note e = returned_code_has_preamble
    [where svc = goodService, THEN conjunct1, rule_format, OF a]
  have f: "outcome (generateScreenCodeFlutter dartService (js ''Home'') (js ''A recipe app'') MODERN
              (js ''#A78BFA'') (js ''#2DD4BF'')) =
     Inr (js ''import '' @ sq @ js ''package:flutter/material.dart'' @ sq @ js '';'' @ nl
          @ nl
          @ js ''class HomeScreen extends StatelessWidget {'' @ nl
          @ js ''  const HomeScreen({super.key});'' @ nl
          @ js ''}'' @ nl)"
    by (rule sampleDart_widget)
  have g: "fencesRemoved (js ''dart'') sampleDart
         (nl @ js ''class HomeScreen extends StatelessWidget {'' @ nl
          @ js ''  const HomeScreen({super.key});'' @ nl
          @ js ''}'' @ nl)"
    using stripFences_removes [of "js ''dart''" sampleDart] by (simp only: sampleDart_stripped)
  note h = returned_code_has_preamble
    [where svc = dartService, THEN conjunct2, rule_format, OF f]
  from a b c d e f g h show ?thesis
    by - (intro conjI; assumption)
qed

section \<open>The batch of screens\<close>

lemma outcome_Promise_all3_fulfilled:
  "outcome a = Inr u \<Longrightarrow> outcome b = Inr v \<Longrightarrow> outcome c = Inr w \<Longrightarrow>
     outcome (Promise_all3 a b c) = Inr (u, v, w)"
  by (simp add: Promise_all3_def outcome_Promise_all2)

lemma outcome_Promise_all3_rejected:
  "isl (outcome a) \<or> isl (outcome b) \<or> isl (outcome c) \<Longrightarrow>
     \<exists>e. outcome (Promise_all3 a b c) = Inl e
         \<and> (outcome a = Inl e \<or> outcome b = Inl e \<or> outcome c = Inl e)"
  by (cases "outcome a"; cases "outcome b"; cases "outcome c")
     (auto simp: Promise_all3_def outcome_Promise_all2)

lemma requests_Promise_all3:
  "requests (Promise_all3 a b c) = requests a @ requests b @ requests c"
  by (simp add: Promise_all3_def requests_Promise_all2)

lemma screenPromise_fulfilled:
  assumes "outcome (generateScreenImage (ai (Suc i)) name d s p q) = Inr u"
    and "outcome (generateScreenCodeReact (ai (Suc i)) name d s p q) = Inr r"
    and "outcome (generateScreenCodeFlutter (ai (Suc i)) name d s p q) = Inr f"
  shows "outcome (screenPromise ai d s p q (i, name))
           = Inr \<lparr>title = name, imageUrl = u, code = \<lparr>react = r, flutter = f\<rparr>\<rparr>"
  using outcome_Promise_all3_fulfilled [OF assms]
  by (simp add: screenPromise_def promise_simps)

lemma screenPromise_rejected:
  assumes "screenRejects ai d s p q i name"
  shows "\<exists>e. outcome (screenPromise ai d s p q (i, name)) = Inl e
     \<and> (outcome (generateScreenImage (ai (Suc i)) name d s p q) = Inl e
        \<or> outcome (generateScreenCodeReact (ai (Suc i)) name d s p q) = Inl e
        \<or> outcome (generateScreenCodeFlutter (ai (Suc i)) name d s p q) = Inl e)"
proof -
  from assms obtain e where
    "outcome (Promise_all3
        (generateScreenImage (ai (Suc i)) name d s p q)
        (generateScreenCodeReact (ai (Suc i)) name d s p q)
        (generateScreenCodeFlutter (ai (Suc i)) name d s p q)) = Inl e"
    and "outcome (generateScreenImage (ai (Suc i)) name d s p q) = Inl e
        \<or> outcome (generateScreenCodeReact (ai (Suc i)) name d s p q) = Inl e
        \<or> outcome (generateScreenCodeFlutter (ai (Suc i)) name d s p q) = Inl e"
    using outcome_Promise_all3_rejected
      [of "generateScreenImage (ai (Suc i)) name d s p q"
          "generateScreenCodeReact (ai (Suc i)) name d s p q"
          "generateScreenCodeFlutter (ai (Suc i)) name d s p q"]
    unfolding screenRejects_def by blast
  then show ?thesis
    by (auto simp: screenPromise_def promise_simps)
qed

lemma screenPromise_not_rejected:
  assumes "\<not> screenRejects ai d s p q i name"
  shows "\<exists>screen. outcome (screenPromise ai d s p q (i, name)) = Inr screen
     \<and> title screen = name
     \<and> outcome (generateScreenImage (ai (Suc i)) name d s p q) = Inr (imageUrl screen)
     \<and> outcome (generateScreenCodeReact (ai (Suc i)) name d s p q) = Inr (react (code screen))
     \<and> outcome (generateScreenCodeFlutter (ai (Suc i)) name d s p q) = Inr (flutter (code screen))"
proof -
  from assms obtain u r f where
    "outcome (generateScreenImage (ai (Suc i)) name d s p q) = Inr u"
    "outcome (generateScreenCodeReact (ai (Suc i)) name d s p q) = Inr r"
    "outcome (generateScreenCodeFlutter (ai (Suc i)) name d s p q) = Inr f"
    unfolding screenRejects_def
    by (metis isl_def sum.exhaust_sel)
  then show ?thesis
    using screenPromise_fulfilled [of ai i name d s p q u r f] by simp
qed

lemma screenPromise_isl:
  "isl (outcome (screenPromise ai d s p q (i, name))) \<longleftrightarrow> screenRejects ai d s p q i name"
  using screenPromise_rejected [of ai d s p q i name]
    screenPromise_not_rejected [of ai d s p q i name]
  by (cases "screenRejects ai d s p q i name") auto

text \<open>A generator only ever rejects with its own, non-empty message.\<close>

lemma generator_messages:
  "outcome (generateScreenImage svc n d s p q) = Inl e \<Longrightarrow>
     message e = js ''Failed to generate UI for '' @ n @ js ''.''"
  "outcome (generateScreenCodeReact svc n d s p q) = Inl e \<Longrightarrow>
     message e = js ''Failed to generate React code for '' @ dq @ n @ dq @ js ''.''"
  "outcome (generateScreenCodeFlutter svc n d s p q) = Inl e \<Longrightarrow>
     message e = js ''Failed to generate Flutter code for '' @ dq @ n @ dq @ js ''.''"
  by (auto simp: outcome_generateScreenImage outcome_generateScreenCodeReact
      outcome_generateScreenCodeFlutter split: sum.splits option.splits if_splits)

lemma generator_message_nonempty:
  "outcome (generateScreenImage svc n d s p q) = Inl e
   \<or> outcome (generateScreenCodeReact svc n d s p q) = Inl e
   \<or> outcome (generateScreenCodeFlutter svc n d s p q) = Inl e \<Longrightarrow> message e \<noteq> []"
  by (auto dest!: generator_messages simp: js_def)

text \<open>The \<open>forEach\<close> loop sorts the settled results into the two arrays, keeping their order.\<close>

lemma pushResult_fulfilled:
  "pushResult acc (Inr v) = acc\<lparr>successfulScreens := successfulScreens acc @ [v]\<rparr>"
  by (simp add: pushResult_def)

lemma pushResult_rejected:
  "pushResult acc (Inl reason) =
     acc\<lparr>failedScreenReasons := failedScreenReasons acc
           @ [orElse (message reason) (js ''An unknown screen generation error occurred.'')]\<rparr>"
  by (simp add: pushResult_def)

lemma foldl_pushResult:
  "foldl pushResult acc results =
     \<lparr>successfulScreens = successfulScreens acc @ map projr (filter (\<lambda>r. \<not> isl r) results),
      failedScreenReasons = failedScreenReasons acc
        @ map (\<lambda>r. orElse (message (projl r)) (js ''An unknown screen generation error occurred.''))
            (filter isl results)\<rparr>"
proof (induction results arbitrary: acc)
  case Nil
  then show ?case by simp
next
  case (Cons r results)
  have "foldl pushResult acc (r # results) = foldl pushResult (pushResult acc r) results"
    by simp
  also note Cons.IH [of "pushResult acc r"]
  finally show ?case
    by (cases r) (simp_all add: pushResult_fulfilled pushResult_rejected)
qed

lemma enumerate_positions:
  "enumerate 0 xs = map (\<lambda>i. (i, xs ! i)) [0..<length xs]"
  by (rule nth_equalityI) (simp_all add: enumerate_eq_zip)

lemma outcome_generateAppScreens:
  assumes "outcome (extractScreenNames (ai 0) JSON_parse d) = Inr names" and "names \<noteq> []"
  shows "outcome (generateAppScreens ai JSON_parse d s p q) =
     Inr (foldl pushResult \<lparr>successfulScreens = [], failedScreenReasons = []\<rparr>
            (map (\<lambda>i. outcome (screenPromise ai d s p q (i, names ! i))) [0..<length names]))"
  using assms
  by (simp add: generateAppScreens_def promise_simps Promise_allSettled_def Let_def
      enumerate_positions comp_def)

lemma generateAppScreens_result:
  assumes "outcome (extractScreenNames (ai 0) JSON_parse d) = Inr names" and "names \<noteq> []"
  shows "\<exists>result. outcome (generateAppScreens ai JSON_parse d s p q) = Inr result
     \<and> successfulScreens result =
         map (\<lambda>i. projr (outcome (screenPromise ai d s p q (i, names ! i))))
           (filter (\<lambda>i. \<not> screenRejects ai d s p q i (names ! i)) [0..<length names])
     \<and> failedScreenReasons result =
         map (\<lambda>i. orElse (message (projl (outcome (screenPromise ai d s p q (i, names ! i)))))
                    (js ''An unknown screen generation error occurred.''))
           (filter (\<lambda>i. screenRejects ai d s p q i (names ! i)) [0..<length names])"
  unfolding outcome_generateAppScreens [where ai = ai and JSON_parse = JSON_parse, OF assms]
    foldl_pushResult
  by (simp add: filter_map comp_def screenPromise_isl)

subsection \<open>The sample services on a screen\<close>

lemma goodService_image:
  "outcome (generateScreenImage goodService n d s p q) = Inr (js ''data:image/png;base64,'' @ js ''QUJD'')"
  by (simp add: outcome_generateScreenImage goodService_def inlineImageData_imageResponse)

lemma downService_rejects:
  "isl (outcome (generateScreenImage downService n d s p q))"
  "isl (outcome (generateScreenCodeReact downService n d s p q))"
  "isl (outcome (generateScreenCodeFlutter downService n d s p q))"
  by (simp_all add: outcome_generateScreenImage outcome_generateScreenCodeReact
      outcome_generateScreenCodeFlutter downService_def)

lemma allGood_never_rejects: "\<not> screenRejects allGood d s p q i name"
  by (simp add: screenRejects_def allGood_def goodService_image goodService_code)

lemma secondScreenDown_rejects: "screenRejects secondScreenDown d s p q i name \<longleftrightarrow> i = 1"
  by (simp add: screenRejects_def secondScreenDown_def goodService_image goodService_code
      downService_rejects)

lemma allScreensDown_rejects: "screenRejects allScreensDown d s p q i name"
  by (simp add: screenRejects_def allScreensDown_def downService_rejects)

lemma threeScreens_extracted:
  "snd (svc (ScreenNamesRequest d)) = Inr response \<Longrightarrow>
     outcome (extractScreenNames svc threeScreens d) = Inr [js ''Home'', js ''Log in!'', js ''Home'']"
  by (simp add: outcome_extractScreenNames threeScreens_def)

lemma goodService_names: "snd (goodService (ScreenNamesRequest d)) = Inr (textResponse sampleCode)"
  by (simp add: goodService_def)

subsection \<open>What the batch returns\<close>

text \<open>
  Claim C8. For a batch over N extracted screen names, every screen is accounted for
  exactly once in the result of \<open>generateAppScreens\<close>: the number of successful screen
  records plus the number of failure reasons is N.
\<close>

theorem every_screen_counted_once:
  assumes "outcome (extractScreenNames (ai 0) JSON_parse d) = Inr names" and "names \<noteq> []"
  shows "\<exists>result. outcome (generateAppScreens ai JSON_parse d s p q) = Inr result
     \<and> length (successfulScreens result) + length (failedScreenReasons result) = length names"
proof -
  obtain result where r: "outcome (generateAppScreens ai JSON_parse d s p q) = Inr result"
    and ok: "successfulScreens result =
         map (\<lambda>i. projr (outcome (screenPromise ai d s p q (i, names ! i))))
           (filter (\<lambda>i. \<not> screenRejects ai d s p q i (names ! i)) [0..<length names])"
    and bad: "failedScreenReasons result =
         map (\<lambda>i. orElse (message (projl (outcome (screenPromise ai d s p q (i, names ! i)))))
                    (js ''An unknown screen generation error occurred.''))
           (filter (\<lambda>i. screenRejects ai d s p q i (names ! i)) [0..<length names])"
    using generateAppScreens_result [where ai = ai and JSON_parse = JSON_parse, OF assms] by blast
  have "length (successfulScreens result) + length (failedScreenReasons result)
      = length (filter (\<lambda>i. screenRejects ai d s p q i (names ! i)) [0..<length names])
        + length (filter (\<lambda>i. \<not> screenRejects ai d s p q i (names ! i)) [0..<length names])"
    by (simp add: ok bad)
  also have "\<dots> = length [0..<length names]"
    by (rule sum_length_filter_compl)
  finally show ?thesis using r by simp
qed

theorem every_screen_counted_once_witness:
  "outcome (extractScreenNames (secondScreenDown 0) threeScreens (js ''A recipe app''))
     = Inr [js ''Home'', js ''Log in!'', js ''Home'']
   \<and> [js ''Home'', js ''Log in!'', js ''Home''] \<noteq> []
   \<and> (\<exists>result. outcome (generateAppScreens secondScreenDown threeScreens (js ''A recipe app'') MODERN
                   (js ''#A78BFA'') (js ''#2DD4BF'')) = Inr result
        \<and> length (successfulScreens result) + length (failedScreenReasons result) = 3)"
proof -
  have a: "outcome (extractScreenNames (secondScreenDown 0) threeScreens (js ''A recipe app''))
     = Inr [js ''Home'', js ''Log in!'', js ''Home'']"
    by (rule threeScreens_extracted) (simp add: secondScreenDown_def goodService_names)
  have b: "[js ''Home'', js ''Log in!'', js ''Home''] \<noteq> []"
    by simp
  show ?thesis
    using a every_screen_counted_once
      [where ai = secondScreenDown and JSON_parse = threeScreens, OF a b,
       of MODERN "js ''#A78BFA''" "js ''#2DD4BF''"]
    by (simp add: numeral_3_eq_3)
qed

text \<open>
  Claim C2. For a batch with N extracted screen names in which no generation call
  rejects, \<open>generateAppScreens\<close> returns exactly N screen records, in the order in which
  the names were extracted, each with the title of its screen, the image URL and the
  two code strings that the calls for that screen returned, and no failure reason.
\<close>

theorem all_calls_succeed:
  assumes "outcome (extractScreenNames (ai 0) JSON_parse d) = Inr names" and "names \<noteq> []"
    and "\<forall>i < length names. \<not> screenRejects ai d s p q i (names ! i)"
  shows "\<exists>result. outcome (generateAppScreens ai JSON_parse d s p q) = Inr result
     \<and> length (successfulScreens result) = length names
     \<and> failedScreenReasons result = []
     \<and> (\<forall>i < length names.
          title (successfulScreens result ! i) = names ! i
          \<and> outcome (generateScreenImage (ai (Suc i)) (names ! i) d s p q)
              = Inr (imageUrl (successfulScreens result ! i))
          \<and> outcome (generateScreenCodeReact (ai (Suc i)) (names ! i) d s p q)
              = Inr (react (code (successfulScreens result ! i)))
          \<and> outcome (generateScreenCodeFlutter (ai (Suc i)) (names ! i) d s p q)
              = Inr (flutter (code (successfulScreens result ! i))))"
proof -
  obtain result where r: "outcome (generateAppScreens ai JSON_parse d s p q) = Inr result"
    and ok: "successfulScreens result =
         map (\<lambda>i. projr (outcome (screenPromise ai d s p q (i, names ! i))))
           (filter (\<lambda>i. \<not> screenRejects ai d s p q i (names ! i)) [0..<length names])"
    and bad: "failedScreenReasons result =
         map (\<lambda>i. orElse (message (projl (outcome (screenPromise ai d s p q (i, names ! i)))))
                    (js ''An unknown screen generation error occurred.''))
           (filter (\<lambda>i. screenRejects ai d s p q i (names ! i)) [0..<length names])"
    using generateAppScreens_result [where ai = ai and JSON_parse = JSON_parse, OF assms(1,2)]
    by blast
  have all: "filter (\<lambda>i. \<not> screenRejects ai d s p q i (names ! i)) [0..<length names]
      = [0..<length names]"
    using assms(3) by (simp add: filter_id_conv)
  have none: "filter (\<lambda>i. screenRejects ai d s p q i (names ! i)) [0..<length names] = []"
    using assms(3) by (simp add: filter_empty_conv)
  have records: "successfulScreens result =
      map (\<lambda>i. projr (outcome (screenPromise ai d s p q (i, names ! i)))) [0..<length names]"
    using ok all by simp
  have each: "title (successfulScreens result ! i) = names ! i
          \<and> outcome (generateScreenImage (ai (Suc i)) (names ! i) d s p q)
              = Inr (imageUrl (successfulScreens result ! i))
          \<and> outcome (generateScreenCodeReact (ai (Suc i)) (names ! i) d s p q)
              = Inr (react (code (successfulScreens result ! i)))
          \<and> outcome (generateScreenCodeFlutter (ai (Suc i)) (names ! i) d s p q)
              = Inr (flutter (code (successfulScreens result ! i)))"
    if "i < length names" for i
  proof -
    from that assms(3) have "\<not> screenRejects ai d s p q i (names ! i)" by simp
    from screenPromise_not_rejected [OF this] that show ?thesis
      by (auto simp: records)
  qed
  have len: "length (successfulScreens result) = length names"
    by (simp add: records)
  have nofail: "failedScreenReasons result = []"
    by (simp add: bad none)
  have every: "\<forall>i < length names.
          title (successfulScreens result ! i) = names ! i
          \<and> outcome (generateScreenImage (ai (Suc i)) (names ! i) d s p q)
              = Inr (imageUrl (successfulScreens result ! i))
          \<and> outcome (generateScreenCodeReact (ai (Suc i)) (names ! i) d s p q)
              = Inr (react (code (successfulScreens result ! i)))
          \<and> outcome (generateScreenCodeFlutter (ai (Suc i)) (names ! i) d s p q)
              = Inr (flutter (code (successfulScreens result ! i)))"
    by (intro allI impI) (rule each)
  show ?thesis
    by (rule exI [of _ result]) (intro conjI r len nofail every)
qed

theorem all_calls_succeed_witness:
  "outcome (extractScreenNames (allGood 0) threeScreens (js ''A recipe app''))
     = Inr [js ''Home'', js ''Log in!'', js ''Home'']
   \<and> [js ''Home'', js ''Log in!'', js ''Home''] \<noteq> []
   \<and> \<not> screenRejects allGood (js ''A recipe app'') MODERN (js ''#A78BFA'') (js ''#2DD4BF'') 0 (js ''Home'')
   \<and> \<not> screenRejects allGood (js ''A recipe app'') MODERN (js ''#A78BFA'') (js ''#2DD4BF'') 1 (js ''Log in!'')
   \<and> \<not> screenRejects allGood (js ''A recipe app'') MODERN (js ''#A78BFA'') (js ''#2DD4BF'') 2 (js ''Home'')
   \<and> (\<exists>result. outcome (generateAppScreens allGood threeScreens (js ''A recipe app'') MODERN
                   (js ''#A78BFA'') (js ''#2DD4BF'')) = Inr result
        \<and> map title (successfulScreens result) = [js ''Home'', js ''Log in!'', js ''Home'']
        \<and> failedScreenReasons result = [])"
proof -
  have a: "outcome (extractScreenNames (allGood 0) threeScreens (js ''A recipe app''))
     = Inr [js ''Home'', js ''Log in!'', js ''Home'']"
    by (rule threeScreens_extracted) (simp add: allGood_def goodService_names)
  have b: "[js ''Home'', js ''Log in!'', js ''Home''] \<noteq> []"
    by simp
  have c0: "\<not> screenRejects allGood (js ''A recipe app'') MODERN (js ''#A78BFA'') (js ''#2DD4BF'') 0 (js ''Home'')"
    and c1: "\<not> screenRejects allGood (js ''A recipe app'') MODERN (js ''#A78BFA'') (js ''#2DD4BF'') 1 (js ''Log in!'')"
    and c2: "\<not> screenRejects allGood (js ''A recipe app'') MODERN (js ''#A78BFA'') (js ''#2DD4BF'') 2 (js ''Home'')"
    by (rule allGood_never_rejects)+
  have c: "\<forall>i < length [js ''Home'', js ''Log in!'', js ''Home''].
         \<not> screenRejects allGood (js ''A recipe app'') MODERN (js ''#A78BFA'') (js ''#2DD4BF'') i
             ([js ''Home'', js ''Log in!'', js ''Home''] ! i)"
    using c0 c1 c2 by (simp add: less_Suc_eq numeral_3_eq_3 numeral_2_eq_2 all_conj_distrib)
  from all_calls_succeed [where ai = allGood and JSON_parse = threeScreens, OF a b c]
  obtain result where r: "outcome (generateAppScreens allGood threeScreens (js ''A recipe app'') MODERN
                   (js ''#A78BFA'') (js ''#2DD4BF'')) = Inr result"
    and n: "length (successfulScreens result) = length [js ''Home'', js ''Log in!'', js ''Home'']"
    and f: "failedScreenReasons result = []"
    and t: "\<And>i. i < length [js ''Home'', js ''Log in!'', js ''Home''] \<Longrightarrow>
          title (successfulScreens result ! i) = [js ''Home'', js ''Log in!'', js ''Home''] ! i"
    by (elim exE conjE) simp
  have "map title (successfulScreens result) = [js ''Home'', js ''Log in!'', js ''Home'']"
  proof (rule nth_equalityI)
    show "length (map title (successfulScreens result)) = length [js ''Home'', js ''Log in!'', js ''Home'']"
      using n by simp
  next
    fix i
    assume "i < length (map title (successfulScreens result))"
    then have i: "i < length [js ''Home'', js ''Log in!'', js ''Home'']"
      using n by simp
    then have "title (successfulScreens result ! i) = [js ''Home'', js ''Log in!'', js ''Home''] ! i"
      by (rule t)
    then show "map title (successfulScreens result) ! i = [js ''Home'', js ''Log in!'', js ''Home''] ! i"
      using i n by (simp only: nth_map)
  qed
  with r f have "\<exists>result. outcome (generateAppScreens allGood threeScreens (js ''A recipe app'') MODERN
                   (js ''#A78BFA'') (js ''#2DD4BF'')) = Inr result
        \<and> map title (successfulScreens result) = [js ''Home'', js ''Log in!'', js ''Home'']
        \<and> failedScreenReasons result = []"
    by (intro exI [of _ result] conjI)
  with a b c0 c1 c2 show ?thesis
    by - (intro conjI; assumption)
qed

lemma list_all2_map_same:
  "(\<And>x. x \<in> set xs \<Longrightarrow> R x (f x)) \<Longrightarrow> list_all2 R xs (map f xs)"
  by (simp add: list_all2_map2 list_all2_same)

text \<open>
  Claim C1. For a non-empty list of extracted screen names, let F be the set of the
  screens (by position) for which one of the three requests (image, React code,
  Flutter code) rejects. Then \<open>generateAppScreens\<close> returns; its successes are, in order,
  the records of the screens outside F, each assembled from what the three calls of
  that screen returned; its failure reasons are, in order, one per screen in F, each the
  message of a rejection of one of that screen's calls. So one screen's failure removes
  no other screen: there are N minus card F successes and card F reasons (N - 1 and 1
  when a single screen fails).
\<close>

theorem failed_screens_are_the_rejecting_ones:
  assumes "outcome (extractScreenNames (ai 0) JSON_parse d) = Inr names" and "names \<noteq> []"
    and "F = {i. i < length names \<and> screenRejects ai d s p q i (names ! i)}"
  shows "\<exists>result. outcome (generateAppScreens ai JSON_parse d s p q) = Inr result
     \<and> list_all2
          (\<lambda>i screen. title screen = names ! i
             \<and> outcome (generateScreenImage (ai (Suc i)) (names ! i) d s p q) = Inr (imageUrl screen)
             \<and> outcome (generateScreenCodeReact (ai (Suc i)) (names ! i) d s p q)
                 = Inr (react (code screen))
             \<and> outcome (generateScreenCodeFlutter (ai (Suc i)) (names ! i) d s p q)
                 = Inr (flutter (code screen)))
          (filter (\<lambda>i. i \<notin> F) [0..<length names]) (successfulScreens result)
     \<and> list_all2
          (\<lambda>i reason. \<exists>e. reason = message e
             \<and> (outcome (generateScreenImage (ai (Suc i)) (names ! i) d s p q) = Inl e
                \<or> outcome (generateScreenCodeReact (ai (Suc i)) (names ! i) d s p q) = Inl e
                \<or> outcome (generateScreenCodeFlutter (ai (Suc i)) (names ! i) d s p q) = Inl e))
          (filter (\<lambda>i. i \<in> F) [0..<length names]) (failedScreenReasons result)
     \<and> length (successfulScreens result) = length names - card F
     \<and> length (failedScreenReasons result) = card F"
proof -
  let ?rej = "\<lambda>i. screenRejects ai d s p q i (names ! i)"
  let ?out = "\<lambda>i. outcome (screenPromise ai d s p q (i, names ! i))"
  obtain result where r: "outcome (generateAppScreens ai JSON_parse d s p q) = Inr result"
    and ok: "successfulScreens result =
         map (\<lambda>i. projr (?out i)) (filter (\<lambda>i. \<not> ?rej i) [0..<length names])"
    and bad: "failedScreenReasons result =
         map (\<lambda>i. orElse (message (projl (?out i)))
                    (js ''An unknown screen generation error occurred.''))
           (filter ?rej [0..<length names])"
    using generateAppScreens_result [where ai = ai and JSON_parse = JSON_parse, OF assms(1,2)]
    by blast
  have inF: "filter (\<lambda>i. i \<in> F) [0..<length names] = filter ?rej [0..<length names]"
    by (rule filter_cong) (simp_all add: assms(3))
  have notF: "filter (\<lambda>i. i \<notin> F) [0..<length names] = filter (\<lambda>i. \<not> ?rej i) [0..<length names]"
    by (rule filter_cong) (simp_all add: assms(3))
  have successes: "list_all2
          (\<lambda>i screen. title screen = names ! i
             \<and> outcome (generateScreenImage (ai (Suc i)) (names ! i) d s p q) = Inr (imageUrl screen)
             \<and> outcome (generateScreenCodeReact (ai (Suc i)) (names ! i) d s p q)
                 = Inr (react (code screen))
             \<and> outcome (generateScreenCodeFlutter (ai (Suc i)) (names ! i) d s p q)
                 = Inr (flutter (code screen)))
          (filter (\<lambda>i. i \<notin> F) [0..<length names]) (successfulScreens result)"
    unfolding ok notF
  proof (rule list_all2_map_same)
    fix i
    assume "i \<in> set (filter (\<lambda>i. \<not> ?rej i) [0..<length names])"
    then have "\<not> ?rej i" by simp
    from screenPromise_not_rejected [OF this]
    show "title (projr (?out i)) = names ! i
        \<and> outcome (generateScreenImage (ai (Suc i)) (names ! i) d s p q)
            = Inr (imageUrl (projr (?out i)))
        \<and> outcome (generateScreenCodeReact (ai (Suc i)) (names ! i) d s p q)
            = Inr (react (code (projr (?out i))))
        \<and> outcome (generateScreenCodeFlutter (ai (Suc i)) (names ! i) d s p q)
            = Inr (flutter (code (projr (?out i))))"
      by auto
  qed
  have failures: "list_all2
          (\<lambda>i reason. \<exists>e. reason = message e
             \<and> (outcome (generateScreenImage (ai (Suc i)) (names ! i) d s p q) = Inl e
                \<or> outcome (generateScreenCodeReact (ai (Suc i)) (names ! i) d s p q) = Inl e
                \<or> outcome (generateScreenCodeFlutter (ai (Suc i)) (names ! i) d s p q) = Inl e))
          (filter (\<lambda>i. i \<in> F) [0..<length names]) (failedScreenReasons result)"
    unfolding bad inF
  proof (rule list_all2_map_same)
    fix i
    assume "i \<in> set (filter ?rej [0..<length names])"
    then have "?rej i" by simp
    from screenPromise_rejected [OF this] obtain e where e: "?out i = Inl e"
      and which: "outcome (generateScreenImage (ai (Suc i)) (names ! i) d s p q) = Inl e
        \<or> outcome (generateScreenCodeReact (ai (Suc i)) (names ! i) d s p q) = Inl e
        \<or> outcome (generateScreenCodeFlutter (ai (Suc i)) (names ! i) d s p q) = Inl e"
      by (elim exE conjE)
    from which have "message e \<noteq> []"
      by (rule generator_message_nonempty)
    then have "orElse (message (projl (?out i))) (js ''An unknown screen generation error occurred.'')
        = message e"
      by (simp add: e orElse_def)
    with which show "\<exists>e. orElse (message (projl (?out i)))
          (js ''An unknown screen generation error occurred.'') = message e
        \<and> (outcome (generateScreenImage (ai (Suc i)) (names ! i) d s p q) = Inl e
           \<or> outcome (generateScreenCodeReact (ai (Suc i)) (names ! i) d s p q) = Inl e
           \<or> outcome (generateScreenCodeFlutter (ai (Suc i)) (names ! i) d s p q) = Inl e)"
      by (intro exI [of _ e] conjI)
  qed
  have "set (filter (\<lambda>i. i \<in> F) [0..<length names]) = F"
    by (auto simp: assms(3))
  then have "card F = card (set (filter (\<lambda>i. i \<in> F) [0..<length names]))"
    by simp
  also have "\<dots> = length (filter (\<lambda>i. i \<in> F) [0..<length names])"
    by (rule distinct_card) simp
  finally have cardF: "card F = length (filter (\<lambda>i. i \<in> F) [0..<length names])" .
  have nfail: "length (failedScreenReasons result) = card F"
    using list_all2_lengthD [OF failures] cardF by simp
  have "length (filter (\<lambda>i. i \<in> F) [0..<length names])
      + length (filter (\<lambda>i. i \<notin> F) [0..<length names]) = length [0..<length names]"
    by (rule sum_length_filter_compl)
  then have nok: "length (successfulScreens result) = length names - card F"
    using list_all2_lengthD [OF successes] cardF by simp
  show ?thesis
    by (rule exI [of _ result]) (intro conjI r successes failures nok nfail)
qed

theorem failed_screens_are_the_rejecting_ones_witness:
  "outcome (extractScreenNames (secondScreenDown 0) threeScreens (js ''A recipe app''))
     = Inr [js ''Home'', js ''Log in!'', js ''Home'']
   \<and> [js ''Home'', js ''Log in!'', js ''Home''] \<noteq> []
   \<and> {1} = {i. i < length [js ''Home'', js ''Log in!'', js ''Home'']
               \<and> screenRejects secondScreenDown (js ''A recipe app'') MODERN (js ''#A78BFA'')
                    (js ''#2DD4BF'') i ([js ''Home'', js ''Log in!'', js ''Home''] ! i)}
   \<and> (\<exists>result. outcome (generateAppScreens secondScreenDown threeScreens (js ''A recipe app'') MODERN
                   (js ''#A78BFA'') (js ''#2DD4BF'')) = Inr result
        \<and> length (successfulScreens result) = 2
        \<and> length (failedScreenReasons result) = 1)"
proof -
  have a: "outcome (extractScreenNames (secondScreenDown 0) threeScreens (js ''A recipe app''))
     = Inr [js ''Home'', js ''Log in!'', js ''Home'']"
    by (rule threeScreens_extracted) (simp add: secondScreenDown_def goodService_names)
  have b: "[js ''Home'', js ''Log in!'', js ''Home''] \<noteq> []"
    by simp
  have c: "{1} = {i. i < length [js ''Home'', js ''Log in!'', js ''Home'']
               \<and> screenRejects secondScreenDown (js ''A recipe app'') MODERN (js ''#A78BFA'')
                    (js ''#2DD4BF'') i ([js ''Home'', js ''Log in!'', js ''Home''] ! i)}"
    by (auto simp: secondScreenDown_rejects)
  from failed_screens_are_the_rejecting_ones
    [where ai = secondScreenDown and JSON_parse = threeScreens, OF a b c]
  obtain result where r: "outcome (generateAppScreens secondScreenDown threeScreens (js ''A recipe app'') MODERN
                   (js ''#A78BFA'') (js ''#2DD4BF'')) = Inr result"
    and n: "length (successfulScreens result) = length [js ''Home'', js ''Log in!'', js ''Home''] - card {1::nat}"
    and f: "length (failedScreenReasons result) = card {1::nat}"
    by (elim exE conjE)
  from n have n': "length (successfulScreens result) = 2" by simp
  from f have f': "length (failedScreenReasons result) = 1" by simp
  have "\<exists>result. outcome (generateAppScreens secondScreenDown threeScreens (js ''A recipe app'') MODERN
                   (js ''#A78BFA'') (js ''#2DD4BF'')) = Inr result
        \<and> length (successfulScreens result) = 2
        \<and> length (failedScreenReasons result) = 1"
    by (rule exI [of _ result]) (intro conjI r n' f')
  with a b c show ?thesis
    by - (intro conjI; assumption)
qed

section \<open>The generate handler\<close>

lemma settledAt_generateScreenImage:
  "settledAt (generateScreenImage svc n d s p q) = fst (svc (ScreenImageRequest n d s p q))"
  by (simp add: generateScreenImage_def tryCatch_def await_def generateContent_def throw_def
      resolve_def split: prod.split sum.split option.split)

lemma settledAt_generateScreenCodeReact:
  "settledAt (generateScreenCodeReact svc n d s p q) = fst (svc (ReactCodeRequest n d s p q))"
  by (simp add: generateScreenCodeReact_def tryCatch_def await_def generateContent_def throw_def
      resolve_def Let_def split: prod.split sum.split option.split)

lemma settledAt_generateScreenCodeFlutter:
  "settledAt (generateScreenCodeFlutter svc n d s p q) = fst (svc (FlutterCodeRequest n d s p q))"
  by (simp add: generateScreenCodeFlutter_def tryCatch_def await_def generateContent_def throw_def
      resolve_def Let_def split: prod.split sum.split option.split)

lemma settledAt_Promise_all2_rejected:
  "outcome a = Inl e \<Longrightarrow> outcome b = Inl e' \<Longrightarrow>
     settledAt (Promise_all2 a b) = min (settledAt a) (settledAt b)"
  by (simp add: Promise_all2_def)

text \<open>The outcome of the handler, by what the two promises of its \<open>Promise.all\<close> do.\<close>

lemma aggregate_message_nonempty:
  "js ''Failed to generate any screens. Please try refining your prompt.'' \<noteq> []"
  by (simp add: js_def)

lemma handleGenerate_fulfilled:
  assumes "prompt st \<noteq> []" and "palette st = Some pal"
    and "outcome (generateAppScreens ai JSON_parse (prompt st) (selectedStyle st)
           (primary pal) (secondary pal)) = Inr result"
    and "outcome (generateLogo (ai 0) (prompt st) (selectedStyle st)
           (primary pal) (secondary pal)) = Inr logoUrl"
  shows "generatedScreens (handleGenerate ai JSON_parse st) = successfulScreens result"
    and "logoImageUrl (handleGenerate ai JSON_parse st) = Some logoUrl"
    and "notifications (handleGenerate ai JSON_parse st) =
      notifications st @
      (if successfulScreens result = []
       then (if failedScreenReasons result = [] then []
             else [Notification
                     (js ''Could not generate some screens: ''
                        @ join (js '', '') (take 2 (failedScreenReasons result))) error,
                   Notification
                     (js ''Failed to generate any screens. Please try refining your prompt.'') error])
       else Notification
              (js ''Successfully generated '' @ decimal (length (successfulScreens result))
                 @ js '' screen(s)!'') success
            # (if failedScreenReasons result = [] then []
               else [Notification
                       (js ''Could not generate some screens: ''
                          @ join (js '', '') (take 2 (failedScreenReasons result))) error]))"
  using assms aggregate_message_nonempty
  by (simp_all add: handleGenerate_def outcome_Promise_all2 showResults_def showNotification_def
      orElse_def Let_def)

lemma handleGenerate_logo_rejected:
  assumes "prompt st \<noteq> []" and "palette st = Some pal"
    and "outcome (generateAppScreens ai JSON_parse (prompt st) (selectedStyle st)
           (primary pal) (secondary pal)) = Inr result"
    and "isl (outcome (generateLogo (ai 0) (prompt st) (selectedStyle st)
           (primary pal) (secondary pal)))"
  shows "generatedScreens (handleGenerate ai JSON_parse st) = []"
    and "notifications (handleGenerate ai JSON_parse st) =
      notifications st @ [Notification (js ''Failed to generate a logo for the app.'') error]"
proof -
  from assms(4) have logo: "outcome (generateLogo (ai 0) (prompt st) (selectedStyle st)
      (primary pal) (secondary pal)) = Inl (Error (js ''Failed to generate a logo for the app.''))"
    by (auto simp: outcome_generateLogo split: sum.splits option.splits)
  have ne: "js ''Failed to generate a logo for the app.'' \<noteq> []"
    by (simp add: js_def)
  show "generatedScreens (handleGenerate ai JSON_parse st) = []"
    using assms(1-3) logo
    by (simp add: handleGenerate_def outcome_Promise_all2 showNotification_def Let_def)
  show "notifications (handleGenerate ai JSON_parse st) =
      notifications st @ [Notification (js ''Failed to generate a logo for the app.'') error]"
    using assms(1-3) logo ne
    by (simp add: handleGenerate_def outcome_Promise_all2 showNotification_def orElse_def Let_def)
qed

lemma no_success_iff_all_reject:
  assumes "outcome (extractScreenNames (ai 0) JSON_parse d) = Inr names" and "names \<noteq> []"
    and "outcome (generateAppScreens ai JSON_parse d s p q) = Inr result"
  shows "successfulScreens result = [] \<longleftrightarrow>
     (\<forall>i < length names. screenRejects ai d s p q i (names ! i))"
proof -
  from generateAppScreens_result [where ai = ai and JSON_parse = JSON_parse, OF assms(1,2), of s p q]
    assms(3)
  have "successfulScreens result =
         map (\<lambda>i. projr (outcome (screenPromise ai d s p q (i, names ! i))))
           (filter (\<lambda>i. \<not> screenRejects ai d s p q i (names ! i)) [0..<length names])"
    by auto
  then show ?thesis
    by (auto simp: filter_empty_conv)
qed

subsection \<open>The sample services in the handler\<close>

lemma screenPromise_good_replies:
  assumes "ai (Suc i) (ScreenImageRequest name d s p q) = goodService (ScreenImageRequest name d s p q)"
    and "ai (Suc i) (ReactCodeRequest name d s p q) = goodService (ReactCodeRequest name d s p q)"
    and "ai (Suc i) (FlutterCodeRequest name d s p q) = goodService (FlutterCodeRequest name d s p q)"
  shows "outcome (screenPromise ai d s p q (i, name)) = Inr (sampleScreen name)"
proof -
  have "outcome (generateScreenImage (ai (Suc i)) name d s p q)
      = outcome (generateScreenImage goodService name d s p q)"
    by (simp add: outcome_generateScreenImage assms)
  moreover have "outcome (generateScreenCodeReact (ai (Suc i)) name d s p q)
      = outcome (generateScreenCodeReact goodService name d s p q)"
    by (simp add: outcome_generateScreenCodeReact assms)
  moreover have "outcome (generateScreenCodeFlutter (ai (Suc i)) name d s p q)
      = outcome (generateScreenCodeFlutter goodService name d s p q)"
    by (simp add: outcome_generateScreenCodeFlutter assms)
  ultimately show ?thesis
    using screenPromise_fulfilled [of ai i name d s p q
        "js ''data:image/png;base64,'' @ js ''QUJD''"
        "reactComponent (removeNonAlnum name) (trim (stripFences (js ''jsx'') sampleCode))"
        "flutterWidget (trim (stripFences (js ''dart'') sampleCode))"]
    by (simp add: goodService_image goodService_code sampleScreen_def js_def)
qed

lemma screenPromise_down_replies:
  assumes "ai (Suc i) (ScreenImageRequest name d s p q) = downService (ScreenImageRequest name d s p q)"
    and "ai (Suc i) (ReactCodeRequest name d s p q) = downService (ReactCodeRequest name d s p q)"
    and "ai (Suc i) (FlutterCodeRequest name d s p q) = downService (FlutterCodeRequest name d s p q)"
  shows "outcome (screenPromise ai d s p q (i, name))
           = Inl (Error (js ''Failed to generate UI for '' @ name @ js ''.''))"
  by (simp add: screenPromise_def promise_simps Promise_all3_def outcome_Promise_all2
      settledAt_Promise_all2_rejected
      outcome_generateScreenImage outcome_generateScreenCodeReact outcome_generateScreenCodeFlutter
      settledAt_generateScreenImage settledAt_generateScreenCodeReact
      settledAt_generateScreenCodeFlutter assms downService_def)

lemma three_results:
  assumes "outcome (extractScreenNames (ai 0) JSON_parse d) = Inr [a, b, c]"
  shows "outcome (generateAppScreens ai JSON_parse d s p q) =
     Inr (foldl pushResult \<lparr>successfulScreens = [], failedScreenReasons = []\<rparr>
            [outcome (screenPromise ai d s p q (0, a)),
             outcome (screenPromise ai d s p q (1, b)),
             outcome (screenPromise ai d s p q (2, c))])"
proof -
  have "[0..<length [a, b, c]] = [0, 1, 2]"
    by (simp add: upt_rec)
  then show ?thesis
    using outcome_generateAppScreens [where ai = ai and JSON_parse = JSON_parse, OF assms, of s p q]
    by (simp add: numeral_2_eq_2)
qed

lemma one_down_batch:
  assumes "ai = secondScreenDown \<or> ai = logoAndSecondScreenDown"
  shows "outcome (generateAppScreens ai threeScreens d s p q) =
     Inr \<lparr>successfulScreens = [sampleScreen (js ''Home''), sampleScreen (js ''Home'')],
          failedScreenReasons = [js ''Failed to generate UI for '' @ js ''Log in!'' @ js ''.'']\<rparr>"
proof -
  have names: "outcome (extractScreenNames (ai 0) threeScreens d)
      = Inr [js ''Home'', js ''Log in!'', js ''Home'']"
    using assms
    by (intro threeScreens_extracted [of _ _ "textResponse sampleCode"])
       (auto simp: secondScreenDown_def logoAndSecondScreenDown_def goodService_def)
  have first: "outcome (screenPromise ai d s p q (0, js ''Home'')) = Inr (sampleScreen (js ''Home''))"
    using assms
    by (intro screenPromise_good_replies)
       (auto simp: secondScreenDown_def logoAndSecondScreenDown_def)
  have second: "outcome (screenPromise ai d s p q (1, js ''Log in!''))
      = Inl (Error (js ''Failed to generate UI for '' @ js ''Log in!'' @ js ''.''))"
    using assms
    by (intro screenPromise_down_replies)
       (auto simp: secondScreenDown_def logoAndSecondScreenDown_def)
  have third: "outcome (screenPromise ai d s p q (2, js ''Home'')) = Inr (sampleScreen (js ''Home''))"
    using assms
    by (intro screenPromise_good_replies)
       (auto simp: secondScreenDown_def logoAndSecondScreenDown_def)
  show ?thesis
    unfolding three_results [where ai = ai and JSON_parse = threeScreens, OF names] first second third
    by (simp add: pushResult_fulfilled pushResult_rejected orElse_def js_def)
qed

lemma all_down_batch:
  assumes "ai = allScreensDown \<or> ai = everythingDown"
  shows "outcome (generateAppScreens ai threeScreens d s p q) =
     Inr \<lparr>successfulScreens = [],
          failedScreenReasons =
            [js ''Failed to generate UI for '' @ js ''Home'' @ js ''.'',
             js ''Failed to generate UI for '' @ js ''Log in!'' @ js ''.'',
             js ''Failed to generate UI for '' @ js ''Home'' @ js ''.'']\<rparr>"
proof -
  have names: "outcome (extractScreenNames (ai 0) threeScreens d)
      = Inr [js ''Home'', js ''Log in!'', js ''Home'']"
    using assms
    by (intro threeScreens_extracted [of _ _ "textResponse sampleCode"])
       (auto simp: allScreensDown_def everythingDown_def goodService_def)
  have each: "outcome (screenPromise ai d s p q (i, name))
      = Inl (Error (js ''Failed to generate UI for '' @ name @ js ''.''))" for i name
    using assms
    by (intro screenPromise_down_replies)
       (auto simp: allScreensDown_def everythingDown_def)
  show ?thesis
    unfolding three_results [where ai = ai and JSON_parse = threeScreens, OF names] each
    by (simp add: pushResult_rejected orElse_def js_def)
qed

lemma sample_logo:
  "outcome (generateLogo goodService d s p q) = Inr (js ''data:image/png;base64,'' @ js ''QUJD'')"
  "isl (outcome (generateLogo downService d s p q))"
  by (simp_all add: outcome_generateLogo goodService_def downService_def
      inlineImageData_imageResponse)

lemma initialState_fields:
  "prompt initialState = js ''A recipe app''"
  "prompt initialState \<noteq> []"
  "selectedStyle initialState = MODERN"
  "palette initialState
     = Some \<lparr>primary = js ''#A78BFA'', secondary = js ''#2DD4BF'', accent = js ''#F59E0B''\<rparr>"
  "notifications initialState = []"
  by (simp_all add: initialState_def js_def)

lemma reasons_when_no_success:
  assumes "outcome (extractScreenNames (ai 0) JSON_parse d) = Inr names" and "names \<noteq> []"
    and "outcome (generateAppScreens ai JSON_parse d s p q) = Inr result"
    and "successfulScreens result = []"
  shows "failedScreenReasons result \<noteq> []"
proof -
  from generateAppScreens_result [where ai = ai and JSON_parse = JSON_parse, OF assms(1,2), of s p q]
    assms(3)
  have bad: "failedScreenReasons result =
         map (\<lambda>i. orElse (message (projl (outcome (screenPromise ai d s p q (i, names ! i)))))
                    (js ''An unknown screen generation error occurred.''))
           (filter (\<lambda>i. screenRejects ai d s p q i (names ! i)) [0..<length names])"
    by auto
  have "\<forall>i < length names. screenRejects ai d s p q i (names ! i)"
    using no_success_iff_all_reject [OF assms(1-3)] assms(4) by simp
  then have "filter (\<lambda>i. screenRejects ai d s p q i (names ! i)) [0..<length names]
      = [0..<length names]"
    by (simp add: filter_id_conv)
  then show ?thesis
    using bad assms(2) by simp
qed

lemma join_first_two: "join (js '', '') (take 2 reasons) = firstTwoReasons reasons"
  by (cases reasons; cases "tl reasons") (simp_all add: firstTwoReasons_def numeral_2_eq_2)

lemma decimal_2: "decimal (Suc (Suc 0)) = [0x32]"
  by (subst decimal.simps) simp

text \<open>
  Claim C3, as the code has it. \<open>handleGenerate\<close> awaits the batch together with the
  logo, in one \<open>Promise.all\<close>. A batch yields zero successful screens exactly when
  every screen's calls reject. When the logo is generated, the handler shows the
  successful screens of the batch. With none of them it reports the failure in two
  notifications: one that lists the first two failure reasons, then the aggregate
  error \<open>Failed to generate any screens\<close>. With at least one it reports the success
  and, when some screens failed, lists the first two of their reasons, without an
  aggregate error.
\<close>

theorem handleGenerate_reports_the_batch:
  assumes "prompt st \<noteq> []" and "palette st = Some pal"
    and "outcome (extractScreenNames (ai 0) JSON_parse (prompt st)) = Inr names"
    and "names \<noteq> []"
  shows "\<exists>result.
     outcome (generateAppScreens ai JSON_parse (prompt st) (selectedStyle st)
                (primary pal) (secondary pal)) = Inr result
     \<and> (successfulScreens result = [] \<longleftrightarrow>
          (\<forall>i < length names.
             screenRejects ai (prompt st) (selectedStyle st) (primary pal) (secondary pal)
               i (names ! i)))
     \<and> (\<forall>logoUrl.
          outcome (generateLogo (ai 0) (prompt st) (selectedStyle st) (primary pal) (secondary pal))
            = Inr logoUrl \<longrightarrow>
          generatedScreens (handleGenerate ai JSON_parse st) = successfulScreens result
          \<and> notifications (handleGenerate ai JSON_parse st) =
              notifications st @
              (if successfulScreens result = []
               then [Notification
                       (js ''Could not generate some screens: ''
                          @ firstTwoReasons (failedScreenReasons result)) error,
                     Notification
                       (js ''Failed to generate any screens. Please try refining your prompt.'')
                       error]
               else Notification
                      (js ''Successfully generated ''
                         @ decimal (length (successfulScreens result)) @ js '' screen(s)!'') success
                    # (if failedScreenReasons result = [] then []
                       else [Notification
                               (js ''Could not generate some screens: ''
                                  @ firstTwoReasons (failedScreenReasons result)) error])))"
proof -
  obtain result where r: "outcome (generateAppScreens ai JSON_parse (prompt st) (selectedStyle st)
      (primary pal) (secondary pal)) = Inr result"
    using generateAppScreens_result [where ai = ai and JSON_parse = JSON_parse, OF assms(3,4)]
    by blast
  note none = no_success_iff_all_reject [OF assms(3,4) r]
  have shown: "generatedScreens (handleGenerate ai JSON_parse st) = successfulScreens result
          \<and> notifications (handleGenerate ai JSON_parse st) =
              notifications st @
              (if successfulScreens result = []
               then [Notification
                       (js ''Could not generate some screens: ''
                          @ firstTwoReasons (failedScreenReasons result)) error,
                     Notification
                       (js ''Failed to generate any screens. Please try refining your prompt.'')
                       error]
               else Notification
                      (js ''Successfully generated ''
                         @ decimal (length (successfulScreens result)) @ js '' screen(s)!'') success
                    # (if failedScreenReasons result = [] then []
                       else [Notification
                               (js ''Could not generate some screens: ''
                                  @ firstTwoReasons (failedScreenReasons result)) error]))"
    if logo: "outcome (generateLogo (ai 0) (prompt st) (selectedStyle st) (primary pal) (secondary pal))
            = Inr logoUrl" for logoUrl
  proof (cases "successfulScreens result = []")
    case True
    then have "failedScreenReasons result \<noteq> []"
      by (rule reasons_when_no_success [OF assms(3,4) r])
    with True show ?thesis
      using handleGenerate_fulfilled(1,3) [OF assms(1,2) r logo] by (simp add: join_first_two)
  next
    case False
    then show ?thesis
      using handleGenerate_fulfilled(1,3) [OF assms(1,2) r logo] by (simp add: join_first_two)
  qed
  have with_logo: "\<forall>logoUrl.
          outcome (generateLogo (ai 0) (prompt st) (selectedStyle st) (primary pal) (secondary pal))
            = Inr logoUrl \<longrightarrow>
          generatedScreens (handleGenerate ai JSON_parse st) = successfulScreens result
          \<and> notifications (handleGenerate ai JSON_parse st) =
              notifications st @
              (if successfulScreens result = []
               then [Notification
                       (js ''Could not generate some screens: ''
                          @ firstTwoReasons (failedScreenReasons result)) error,
                     Notification
                       (js ''Failed to generate any screens. Please try refining your prompt.'')
                       error]
               else Notification
                      (js ''Successfully generated ''
                         @ decimal (length (successfulScreens result)) @ js '' screen(s)!'') success
                    # (if failedScreenReasons result = [] then []
                       else [Notification
                               (js ''Could not generate some screens: ''
                                  @ firstTwoReasons (failedScreenReasons result)) error]))"
    by (intro allI impI) (rule shown)
  show ?thesis
    by (rule exI [of _ result]) (intro conjI r none with_logo)
qed

theorem handleGenerate_reports_the_batch_witness:
  "prompt initialState \<noteq> []
   \<and> palette initialState
       = Some \<lparr>primary = js ''#A78BFA'', secondary = js ''#2DD4BF'', accent = js ''#F59E0B''\<rparr>
   \<and> outcome (extractScreenNames (secondScreenDown 0) threeScreens (prompt initialState))
       = Inr [js ''Home'', js ''Log in!'', js ''Home'']
   \<and> [js ''Home'', js ''Log in!'', js ''Home''] \<noteq> []
   \<and> generatedScreens (handleGenerate secondScreenDown threeScreens initialState)
       = [sampleScreen (js ''Home''), sampleScreen (js ''Home'')]
   \<and> notifications (handleGenerate secondScreenDown threeScreens initialState)
       = [Notification (js ''Successfully generated 2 screen(s)!'') success,
          Notification (js ''Could not generate some screens: Failed to generate UI for Log in!.'') error]
   \<and> outcome (extractScreenNames (allScreensDown 0) threeScreens (prompt initialState))
       = Inr [js ''Home'', js ''Log in!'', js ''Home'']
   \<and> generatedScreens (handleGenerate allScreensDown threeScreens initialState) = []
   \<and> notifications (handleGenerate allScreensDown threeScreens initialState)
       = [Notification
            (js ''Could not generate some screens: Failed to generate UI for Home., Failed to generate UI for Log in!.'')
            error,
          Notification (js ''Failed to generate any screens. Please try refining your prompt.'') error]"
proof -
  let ?pal = "\<lparr>primary = js ''#A78BFA'', secondary = js ''#2DD4BF'', accent = js ''#F59E0B''\<rparr>"
  have a: "prompt initialState \<noteq> []"
    by (rule initialState_fields)
  have b: "palette initialState = Some ?pal"
    by (rule initialState_fields)
  have c: "outcome (extractScreenNames (secondScreenDown 0) threeScreens (prompt initialState))
       = Inr [js ''Home'', js ''Log in!'', js ''Home'']"
    by (rule threeScreens_extracted) (simp add: secondScreenDown_def goodService_names)
  have d: "[js ''Home'', js ''Log in!'', js ''Home''] \<noteq> []"
    by simp
  have batch: "outcome (generateAppScreens secondScreenDown threeScreens (prompt initialState)
      (selectedStyle initialState) (primary ?pal) (secondary ?pal)) =
     Inr \<lparr>successfulScreens = [sampleScreen (js ''Home''), sampleScreen (js ''Home'')],
          failedScreenReasons = [js ''Failed to generate UI for '' @ js ''Log in!'' @ js ''.'']\<rparr>"
    by (rule one_down_batch) simp
  have logo: "outcome (generateLogo (secondScreenDown 0) (prompt initialState)
      (selectedStyle initialState) (primary ?pal) (secondary ?pal))
      = Inr (js ''data:image/png;base64,'' @ js ''QUJD'')"
    by (simp add: secondScreenDown_def sample_logo)
  from handleGenerate_reports_the_batch
    [where ai = secondScreenDown and JSON_parse = threeScreens, OF a b c d]
  obtain result where r: "outcome (generateAppScreens secondScreenDown threeScreens (prompt initialState)
      (selectedStyle initialState) (primary ?pal) (secondary ?pal)) = Inr result"
    and shown: "\<And>logoUrl. outcome (generateLogo (secondScreenDown 0) (prompt initialState)
          (selectedStyle initialState) (primary ?pal) (secondary ?pal)) = Inr logoUrl \<Longrightarrow>
       generatedScreens (handleGenerate secondScreenDown threeScreens initialState)
         = successfulScreens result
       \<and> notifications (handleGenerate secondScreenDown threeScreens initialState) =
              notifications initialState @
              (if successfulScreens result = []
               then [Notification
                       (js ''Could not generate some screens: ''
                          @ firstTwoReasons (failedScreenReasons result)) error,
                     Notification
                       (js ''Failed to generate any screens. Please try refining your prompt.'')
                       error]
               else Notification
                      (js ''Successfully generated ''
                         @ decimal (length (successfulScreens result)) @ js '' screen(s)!'') success
                    # (if failedScreenReasons result = [] then []
                       else [Notification
                               (js ''Could not generate some screens: ''
                                  @ firstTwoReasons (failedScreenReasons result)) error]))"
    by (elim exE conjE) simp
  from r batch have result: "result =
      \<lparr>successfulScreens = [sampleScreen (js ''Home''), sampleScreen (js ''Home'')],
       failedScreenReasons = [js ''Failed to generate UI for '' @ js ''Log in!'' @ js ''.'']\<rparr>"
    by simp
  from shown [OF logo]
  have e: "generatedScreens (handleGenerate secondScreenDown threeScreens initialState)
       = [sampleScreen (js ''Home''), sampleScreen (js ''Home'')]"
    and f: "notifications (handleGenerate secondScreenDown threeScreens initialState)
       = [Notification (js ''Successfully generated 2 screen(s)!'') success,
          Notification (js ''Could not generate some screens: Failed to generate UI for Log in!.'') error]"
    unfolding result by (simp_all add: initialState_fields decimal_2 firstTwoReasons_def js_def)
  have c': "outcome (extractScreenNames (allScreensDown 0) threeScreens (prompt initialState))
       = Inr [js ''Home'', js ''Log in!'', js ''Home'']"
    by (rule threeScreens_extracted) (simp add: allScreensDown_def goodService_names)
  have batch': "outcome (generateAppScreens allScreensDown threeScreens (prompt initialState)
      (selectedStyle initialState) (primary ?pal) (secondary ?pal)) =
     Inr \<lparr>successfulScreens = [],
          failedScreenReasons =
            [js ''Failed to generate UI for '' @ js ''Home'' @ js ''.'',
             js ''Failed to generate UI for '' @ js ''Log in!'' @ js ''.'',
             js ''Failed to generate UI for '' @ js ''Home'' @ js ''.'']\<rparr>"
    by (rule all_down_batch) simp
  have logo': "outcome (generateLogo (allScreensDown 0) (prompt initialState)
      (selectedStyle initialState) (primary ?pal) (secondary ?pal))
      = Inr (js ''data:image/png;base64,'' @ js ''QUJD'')"
    by (simp add: allScreensDown_def sample_logo)
  from handleGenerate_reports_the_batch
    [where ai = allScreensDown and JSON_parse = threeScreens, OF a b c' d]
  obtain result' where r': "outcome (generateAppScreens allScreensDown threeScreens (prompt initialState)
      (selectedStyle initialState) (primary ?pal) (secondary ?pal)) = Inr result'"
    and shown': "\<And>logoUrl. outcome (generateLogo (allScreensDown 0) (prompt initialState)
          (selectedStyle initialState) (primary ?pal) (secondary ?pal)) = Inr logoUrl \<Longrightarrow>
       generatedScreens (handleGenerate allScreensDown threeScreens initialState)
         = successfulScreens result'
       \<and> notifications (handleGenerate allScreensDown threeScreens initialState) =
              notifications initialState @
              (if successfulScreens result' = []
               then [Notification
                       (js ''Could not generate some screens: ''
                          @ firstTwoReasons (failedScreenReasons result')) error,
                     Notification
                       (js ''Failed to generate any screens. Please try refining your prompt.'')
                       error]
               else Notification
                      (js ''Successfully generated ''
                         @ decimal (length (successfulScreens result')) @ js '' screen(s)!'') success
                    # (if failedScreenReasons result' = [] then []
                       else [Notification
                               (js ''Could not generate some screens: ''
                                  @ firstTwoReasons (failedScreenReasons result')) error]))"
    by (elim exE conjE) simp
  from r' batch' have result': "result' =
      \<lparr>successfulScreens = [],
       failedScreenReasons =
            [js ''Failed to generate UI for '' @ js ''Home'' @ js ''.'',
             js ''Failed to generate UI for '' @ js ''Log in!'' @ js ''.'',
             js ''Failed to generate UI for '' @ js ''Home'' @ js ''.'']\<rparr>"
    by simp
  from shown' [OF logo']
  have g: "generatedScreens (handleGenerate allScreensDown threeScreens initialState) = []"
    and h: "notifications (handleGenerate allScreensDown threeScreens initialState)
       = [Notification
            (js ''Could not generate some screens: Failed to generate UI for Home., Failed to generate UI for Log in!.'')
            error,
          Notification (js ''Failed to generate any screens. Please try refining your prompt.'') error]"
    unfolding result' by (simp_all add: initialState_fields firstTwoReasons_def js_def)
  from a b c d e f c' g h show ?thesis
    by - (intro conjI; assumption)
qed

text \<open>
  Claim C3 as the specification words it does not hold: it leaves the logo out. With
  two of three screens generated and the logo request rejected, no screen is shown and
  the partial failure is not reported; with every screen and the logo rejected, the
  aggregate error is not raised and the logo failure is reported in its place.
\<close>

theorem logo_failure_hides_the_batch:
  "outcome (generateAppScreens logoAndSecondScreenDown threeScreens (js ''A recipe app'') MODERN
              (js ''#A78BFA'') (js ''#2DD4BF'')) =
     Inr \<lparr>successfulScreens = [sampleScreen (js ''Home''), sampleScreen (js ''Home'')],
          failedScreenReasons = [js ''Failed to generate UI for '' @ js ''Log in!'' @ js ''.'']\<rparr>
   \<and> generatedScreens (handleGenerate logoAndSecondScreenDown threeScreens initialState) = []
   \<and> notifications (handleGenerate logoAndSecondScreenDown threeScreens initialState)
       = [Notification (js ''Failed to generate a logo for the app.'') error]
   \<and> outcome (generateAppScreens everythingDown threeScreens (js ''A recipe app'') MODERN
              (js ''#A78BFA'') (js ''#2DD4BF'')) =
     Inr \<lparr>successfulScreens = [],
          failedScreenReasons =
            [js ''Failed to generate UI for '' @ js ''Home'' @ js ''.'',
             js ''Failed to generate UI for '' @ js ''Log in!'' @ js ''.'',
             js ''Failed to generate UI for '' @ js ''Home'' @ js ''.'']\<rparr>
   \<and> notifications (handleGenerate everythingDown threeScreens initialState)
       = [Notification (js ''Failed to generate a logo for the app.'') error]"
proof -
  let ?pal = "\<lparr>primary = js ''#A78BFA'', secondary = js ''#2DD4BF'', accent = js ''#F59E0B''\<rparr>"
  have a: "prompt initialState \<noteq> []"
    by (rule initialState_fields)
  have b: "palette initialState = Some ?pal"
    by (rule initialState_fields)
  have batch1: "outcome (generateAppScreens logoAndSecondScreenDown threeScreens (js ''A recipe app'') MODERN
              (js ''#A78BFA'') (js ''#2DD4BF'')) =
     Inr \<lparr>successfulScreens = [sampleScreen (js ''Home''), sampleScreen (js ''Home'')],
          failedScreenReasons = [js ''Failed to generate UI for '' @ js ''Log in!'' @ js ''.'']\<rparr>"
    by (rule one_down_batch) simp
  have batch2: "outcome (generateAppScreens everythingDown threeScreens (js ''A recipe app'') MODERN
              (js ''#A78BFA'') (js ''#2DD4BF'')) =
     Inr \<lparr>successfulScreens = [],
          failedScreenReasons =
            [js ''Failed to generate UI for '' @ js ''Home'' @ js ''.'',
             js ''Failed to generate UI for '' @ js ''Log in!'' @ js ''.'',
             js ''Failed to generate UI for '' @ js ''Home'' @ js ''.'']\<rparr>"
    by (rule all_down_batch) simp
  have logo1: "isl (outcome (generateLogo (logoAndSecondScreenDown 0) (prompt initialState)
      (selectedStyle initialState) (primary ?pal) (secondary ?pal)))"
    using sample_logo(2) by (simp add: outcome_generateLogo logoAndSecondScreenDown_def)
  have logo2: "isl (outcome (generateLogo (everythingDown 0) (prompt initialState)
      (selectedStyle initialState) (primary ?pal) (secondary ?pal)))"
    using sample_logo(2) by (simp add: outcome_generateLogo everythingDown_def)
  have batch1': "outcome (generateAppScreens logoAndSecondScreenDown threeScreens (prompt initialState)
      (selectedStyle initialState) (primary ?pal) (secondary ?pal)) =
     Inr \<lparr>successfulScreens = [sampleScreen (js ''Home''), sampleScreen (js ''Home'')],
          failedScreenReasons = [js ''Failed to generate UI for '' @ js ''Log in!'' @ js ''.'']\<rparr>"
    by (rule one_down_batch) simp
  have batch2': "outcome (generateAppScreens everythingDown threeScreens (prompt initialState)
      (selectedStyle initialState) (primary ?pal) (secondary ?pal)) =
     Inr \<lparr>successfulScreens = [],
          failedScreenReasons =
            [js ''Failed to generate UI for '' @ js ''Home'' @ js ''.'',
             js ''Failed to generate UI for '' @ js ''Log in!'' @ js ''.'',
             js ''Failed to generate UI for '' @ js ''Home'' @ js ''.'']\<rparr>"
    by (rule all_down_batch) simp
  have c: "generatedScreens (handleGenerate logoAndSecondScreenDown threeScreens initialState) = []"
    using handleGenerate_logo_rejected(1) [OF a b batch1' logo1] .
  have d: "notifications (handleGenerate logoAndSecondScreenDown threeScreens initialState)
       = [Notification (js ''Failed to generate a logo for the app.'') error]"
    using handleGenerate_logo_rejected(2) [OF a b batch1' logo1]
    by (simp add: initialState_fields)
  have e: "notifications (handleGenerate everythingDown threeScreens initialState)
       = [Notification (js ''Failed to generate a logo for the app.'') error]"
    using handleGenerate_logo_rejected(2) [OF a b batch2' logo2]
    by (simp add: initialState_fields)
  from batch1 c d batch2 e show ?thesis
    by - (intro conjI; assumption)
qed

end
